theory Spec2Isabelle
  imports Main
begin

section \<open>The push script \<open>repush_to_github.bat\<close>\<close>

text \<open>
  The script is a batch file without loops or labels. It is modelled by explicit state
  passing: the interpreter state holds \<open>ERRORLEVEL\<close>, the environment variable
  \<open>commit_message\<close> and the trace of everything the script did, in order. Everything the
  script cannot decide itself comes from an environment record: the exit status of each
  \<open>git\<close> invocation, whether \<open>.git\<close> exists, what the operator types at the prompt, the
  value of \<open>commit_message\<close> inherited from the calling shell (the script has no
  \<open>setlocal\<close>), and whether \<open>start\<close> manages to open the browser.

  The echoed texts are the bytes of the file (UTF-8), so an emoji is three or four
  characters.
\<close>

datatype action =
    Echo string
  | Git "string list"
  | Prompt string
  | SetVar string
  | Pause
  | Start string
  | Unrecognized string
  | Exit int

record env =
  git_rc :: "string list \<Rightarrow> int"
  git_dir_exists :: bool
  typed :: string
  inherited_commit_message :: string
  start_ok :: bool

record state =
  errorlevel :: int
  commit_message :: string
  trace :: "action list"

definition initial :: "env \<Rightarrow> state" where
  "initial e = \<lparr>errorlevel = 0, commit_message = inherited_commit_message e, trace = []\<rparr>"

text \<open>\<open>echo\<close> and \<open>pause\<close> leave \<open>ERRORLEVEL\<close> alone.\<close>

definition echo :: "string \<Rightarrow> state \<Rightarrow> state" where
  "echo txt s = s\<lparr>trace := trace s @ [Echo txt]\<rparr>"

definition pause :: "state \<Rightarrow> state" where
  "pause s = s\<lparr>trace := trace s @ [Pause]\<rparr>"

text \<open>An external command sets \<open>ERRORLEVEL\<close> to its exit status.\<close>

definition git :: "env \<Rightarrow> string list \<Rightarrow> state \<Rightarrow> state" where
  "git e args s = s\<lparr>errorlevel := git_rc e args, trace := trace s @ [Git args]\<rparr>"

text \<open>
  \<open>set /p var=prompt\<close>: an empty input line leaves the variable as it was and sets
  \<open>ERRORLEVEL\<close> to 1; any other input is stored.
\<close>

definition set_p :: "env \<Rightarrow> string \<Rightarrow> state \<Rightarrow> state" where
  "set_p e prompt s =
     (if typed e = [] then s\<lparr>errorlevel := 1, trace := trace s @ [Prompt prompt]\<rparr>
      else s\<lparr>commit_message := typed e, trace := trace s @ [Prompt prompt]\<rparr>)"

definition set_commit_message :: "string \<Rightarrow> state \<Rightarrow> state" where
  "set_commit_message v s = s\<lparr>commit_message := v, trace := trace s @ [SetVar v]\<rparr>"

text \<open>
  \<open>start url\<close> leaves \<open>ERRORLEVEL\<close> unchanged when the target was started and sets it to
  9059 when it could not be.
\<close>

definition start :: "env \<Rightarrow> string \<Rightarrow> state \<Rightarrow> state" where
  "start e url s =
     (if start_ok e then s\<lparr>trace := trace s @ [Start url]\<rparr>
      else s\<lparr>errorlevel := 9059, trace := trace s @ [Start url]\<rparr>)"

text \<open>A word that is no command: the interpreter reports it and sets \<open>ERRORLEVEL\<close> to 9009.\<close>

definition unrecognized :: "string \<Rightarrow> state \<Rightarrow> state" where
  "unrecognized w s = s\<lparr>errorlevel := 9009, trace := trace s @ [Unrecognized w]\<rparr>"

definition exit_b :: "int \<Rightarrow> state \<Rightarrow> state" where
  "exit_b n s = s\<lparr>errorlevel := n, trace := trace s @ [Exit n]\<rparr>"

text \<open>A block of commands runs them in order.\<close>

definition run :: "(state \<Rightarrow> state) list \<Rightarrow> state \<Rightarrow> state" where
  "run cmds s = fold (\<lambda>c t. c t) cmds s"

subsection \<open>The texts of the script\<close>

definition rocket :: string where "rocket = [CHR 0xF0, CHR 0x9F, CHR 0x9A, CHR 0x80]"
definition check_mark :: string where "check_mark = [CHR 0xE2, CHR 0x9C, CHR 0x85]"
definition globe :: string where "globe = [CHR 0xF0, CHR 0x9F, CHR 0x8C, CHR 0x90]"
definition memo :: string where "memo = [CHR 0xF0, CHR 0x9F, CHR 0x93, CHR 0x9D]"
definition party :: string where "party = [CHR 0xF0, CHR 0x9F, CHR 0x8E, CHR 0x89]"
definition dart :: string where "dart = [CHR 0xF0, CHR 0x9F, CHR 0x8E, CHR 0xAF]"
definition train :: string where "train = [CHR 0xF0, CHR 0x9F, CHR 0x9A, CHR 0x82]"
definition zap :: string where "zap = [CHR 0xE2, CHR 0x9A, CHR 0xA1]"
definition cross_mark :: string where "cross_mark = [CHR 0xE2, CHR 0x9D, CHR 0x8C]"
definition glowing_star :: string where "glowing_star = [CHR 0xF0, CHR 0x9F, CHR 0x8C, CHR 0x9F]"

definition default_commit_message :: string where
  "default_commit_message =
     rocket @ '' Update: Complete AI Fitness Health Analyzer with all components and fixes''"

definition repository_url :: string where
  "repository_url = ''https://github.com/Nitishkumarmaury/AI-Fitness-Health-Analyzers''"

subsection \<open>Lines 5 to 20: the two guards\<close>

definition git_missing :: "state \<Rightarrow> state" where
  "git_missing = run
     [echo ''Error: Git is not installed or not in your PATH.'',
      echo ''Please install Git from https://git-scm.com/'',
      pause,
      exit_b 1]"

definition not_a_repository :: "state \<Rightarrow> state" where
  "not_a_repository = run
     [echo ''Error: Not a git repository.'',
      echo ''Please run push_to_github.bat first to initialize the repository.'',
      pause,
      exit_b 1]"

subsection \<open>Lines 31 to 45: the conditional commit\<close>

text \<open>
  The interpreter substitutes every \<open>%name%\<close> of a parenthesised block when it reads the
  block, before running any of its commands, and the script does not enable delayed
  expansion. So \<open>%errorlevel%\<close> of line 32 and both \<open>%commit_message%\<close> of lines 36 and 40
  are the values the state has when the \<open>if\<close> of line 32 is reached: \<open>set /p\<close> of line 34
  changes the variable, not the text already substituted.
\<close>

definition commit_block :: "env \<Rightarrow> state \<Rightarrow> state" where
  "commit_block e s =
     (let substituted = commit_message s in
      if errorlevel s \<noteq> 0 then
        run
          [echo ''Creating commit with latest changes...'',
           set_p e ''Enter commit message (or press Enter for default): '',
           (\<lambda>t. if substituted = [] then set_commit_message default_commit_message t else t),
           git e [''commit'', ''-m'', substituted],
           echo []] s
      else
        run
          [echo ''No changes detected to commit.'',
           echo []] s)"

subsection \<open>Lines 52 to 102: the push and its fallback\<close>

text \<open>
  Lines 93 to 101 are inside the \<open>else\<close> block of line 80, so their \<open>%errorlevel%\<close> is
  substituted together with that of line 54: it is the status of the forced push, not of
  the plain push of line 91. Line 95 starts with the word \<open>else\<close>, which is no
  continuation of line 93 (the block of line 93 is not closed before it): it is run as a
  command of that block, and line 101 closes the block of line 93.
\<close>

definition push_succeeded :: "env \<Rightarrow> state \<Rightarrow> state" where
  "push_succeeded e = run
     [echo [],
      echo (check_mark @ '' Successfully re-pushed to GitHub!''),
      echo [],
      echo (globe @ '' Repository: '' @ repository_url),
      echo [],
      echo (memo @ '' Recent commits:''),
      git e [''log'', ''--oneline'', ''-5''],
      echo [],
      echo (party @ '' Next Steps - Deploy for FREE:''),
      echo [],
      echo (''1. '' @ dart @ '' Streamlit Cloud:''),
      echo ''   - Go to https://share.streamlit.io'',
      echo ''   - Connect your updated GitHub repo'',
      echo ''   - Set main file: app.py'',
      echo ''   - Add secret: GEMINI_API_KEY'',
      echo [],
      echo (''2. '' @ train @ '' Railway:''),
      echo ''   - Go to https://railway.app'',
      echo ''   - Redeploy from updated GitHub repo'',
      echo ''   - Environment variables will be preserved'',
      echo [],
      echo (''3. '' @ zap @ '' Vercel:''),
      echo ''   - Go to https://vercel.com'',
      echo ''   - Auto-deploy will trigger from GitHub'',
      echo []]"

definition regular_push_report :: "state \<Rightarrow> state" where
  "regular_push_report = run
     [echo (check_mark @ '' Regular push successful!''),
      unrecognized ''else'',
      echo (cross_mark @ '' Regular push also failed. Manual intervention needed.''),
      echo [],
      echo ''Manual commands to try:'',
      echo ''git pull origin main'',
      echo ''git push origin main'']"

definition push_failed :: "env \<Rightarrow> int \<Rightarrow> state \<Rightarrow> state" where
  "push_failed e substituted = run
     [echo [],
      echo (cross_mark @ '' Failed to push to GitHub.''),
      echo [],
      echo ''Possible solutions:'',
      echo ''1. Check your internet connection'',
      echo ''2. Verify your GitHub credentials'',
      echo ''3. Try regular push: git push origin main'',
      echo ''4. If conflicts exist, try: git pull origin main'',
      echo [],
      echo ''Trying regular push...'',
      git e [''push'', ''origin'', ''main''],
      (\<lambda>t. if substituted = 0 then regular_push_report t else t)]"

definition push_block :: "env \<Rightarrow> state \<Rightarrow> state" where
  "push_block e s =
     (let substituted = errorlevel s in
      if substituted = 0 then push_succeeded e s else push_failed e substituted s)"

subsection \<open>The whole script\<close>

definition publish :: "env \<Rightarrow> state \<Rightarrow> state" where
  "publish e = run
     [echo ''Current repository status:'',
      git e [''status'', ''--porcelain''],
      echo [],
      echo ''Adding all changes to git...'',
      git e [''add'', ''.''],
      echo [],
      echo ''Checking for changes to commit...'',
      git e [''diff'', ''--cached'', ''--quiet''],
      commit_block e,
      echo ''Current branch:'',
      git e [''branch'', ''--show-current''],
      echo [],
      echo ''Force pushing to GitHub (this will overwrite remote)...'',
      git e [''push'', ''--force-with-lease'', ''origin'', ''main''],
      push_block e,
      echo [],
      echo (glowing_star @ '' Repository updated! Opening GitHub...''),
      pause,
      start e repository_url,
      pause]"

definition repush_to_github :: "env \<Rightarrow> state" where
  "repush_to_github e =
     (let s = run
        [echo ''===== AI Fitness Health Analyzer - Re-Push to GitHub ====='',
         echo [],
         git e [''--version'']] (initial e)
      in if errorlevel s \<noteq> 0 then git_missing s
         else if \<not> git_dir_exists e then not_a_repository s
         else publish e s)"

text \<open>The script ends with the \<open>ERRORLEVEL\<close> of its last command, or with that of \<open>exit /b\<close>.\<close>

definition exit_status :: "env \<Rightarrow> int" where
  "exit_status e = errorlevel (repush_to_github e)"

fun git_commands :: "action list \<Rightarrow> string list list" where
  "git_commands [] = []"
| "git_commands (Git args # as) = args # git_commands as"
| "git_commands (_ # as) = git_commands as"

definition echoed :: "action list \<Rightarrow> string list" where
  "echoed as = concat (map (\<lambda>a. case a of Echo t \<Rightarrow> [t] | _ \<Rightarrow> []) as)"

section \<open>The user interface: \<open>App\<close>, \<open>Footer\<close> and \<open>theme\<close>\<close>

text \<open>
  A JSX expression denotes a tree of elements: a component name, its props and its
  children; a string or a number among the children is a text node. Prop values are
  strings, numbers and object literals. String literals are the bytes of the source file.
  \<open>Decimal m k\<close> is the number written with the digits of \<open>m\<close>, the last \<open>k\<close> of them after
  the point (\<open>Decimal 143 2\<close> is 1.43); \<open>Call f args\<close> stands for the value of a framework
  function that is not modelled.
\<close>

datatype jsval =
    Str string
  | Num int
  | Decimal int nat
  | Obj "(string \<times> jsval) list"
  | Call string "jsval list"

datatype element =
    Element string "(string \<times> jsval) list" "element list"
  | Text string
  | Number int

subsection \<open>\<open>theme.js\<close>\<close>

text \<open>The record handed to \<open>createTheme\<close>.\<close>

definition theme_record :: jsval where
  "theme_record = Obj
     [(''palette'', Obj
        [(''primary'', Obj
           [(''main'', Str ''#6C63FF''),
            (''light'', Str ''#A084E8''),
            (''dark'', Str ''#3D348B''),
            (''contrastText'', Str ''#fff'')]),
         (''secondary'', Obj
           [(''main'', Str ''#FF6584''),
            (''light'', Str ''#FFD86E''),
            (''dark'', Str ''#FF4F5A''),
            (''contrastText'', Str ''#fff'')]),
         (''accent'', Obj [(''main'', Str ''#FFD86E'')]),
         (''success'', Obj [(''main'', Str ''#43E97B''), (''light'', Str ''#38F9D7'')]),
         (''warning'', Obj [(''main'', Str ''#FFD86E'')]),
         (''error'', Obj [(''main'', Str ''#FF4F5A'')]),
         (''background'', Obj
           [(''default'', Str ''linear-gradient(135deg, #F9F9F9 0%, #E0C3FC 100%)''),
            (''paper'', Str ''#fff'')]),
         (''info'', Obj [(''main'', Str ''#38F9D7'')]),
         (''text'', Obj [(''primary'', Str ''#3D348B''), (''secondary'', Str ''#6C63FF'')])]),
      (''typography'', Obj
        [(''fontFamily'', Str ''Poppins, Roboto, Helvetica, Arial, sans-serif''),
         (''h1'', Obj [(''fontSize'', Str ''2.8rem''), (''fontWeight'', Num 700), (''color'', Str ''#6C63FF'')]),
         (''h2'', Obj [(''fontSize'', Str ''2.2rem''), (''fontWeight'', Num 600), (''color'', Str ''#FF6584'')]),
         (''h3'', Obj [(''fontSize'', Str ''1.8rem''), (''fontWeight'', Num 600), (''color'', Str ''#3D348B'')]),
         (''h4'', Obj [(''fontSize'', Str ''1.5rem''), (''fontWeight'', Num 600), (''color'', Str ''#A084E8'')]),
         (''h5'', Obj [(''fontSize'', Str ''1.25rem''), (''fontWeight'', Num 500)]),
         (''h6'', Obj [(''fontSize'', Str ''1.1rem''), (''fontWeight'', Num 500)])]),
      (''shape'', Obj [(''borderRadius'', Num 16)]),
      (''components'', Obj
        [(''MuiButton'', Obj [(''styleOverrides'', Obj [(''root'', Obj
           [(''borderRadius'', Num 16),
            (''textTransform'', Str ''none''),
            (''fontSize'', Str ''1.05rem''),
            (''fontWeight'', Num 600),
            (''boxShadow'', Str ''0 4px 16px rgba(255,101,132,0.10)''),
            (''background'', Str ''linear-gradient(90deg, #6C63FF 0%, #FF6584 100%)''),
            (''color'', Str ''#fff'')])])]),
         (''MuiCard'', Obj [(''styleOverrides'', Obj [(''root'', Obj
           [(''borderRadius'', Num 24),
            (''boxShadow'', Str ''0 6px 24px rgba(255,101,132,0.10)''),
            (''background'', Str ''linear-gradient(135deg, #E0C3FC 0%, #FFD86E 100%)'')])])]),
         (''MuiAppBar'', Obj [(''styleOverrides'', Obj [(''root'', Obj
           [(''background'', Str ''linear-gradient(90deg, #6C63FF 0%, #FF6584 100%)'')])])]),
         (''MuiPaper'', Obj [(''styleOverrides'', Obj [(''root'', Obj
           [(''borderRadius'', Num 16)])])])])]"

text \<open>Reading \<open>obj.k1.k2...\<close>: \<open>None\<close> where JavaScript gives \<open>undefined\<close>.\<close>

fun get_path :: "jsval \<Rightarrow> string list \<Rightarrow> jsval option" where
  "get_path v [] = Some v"
| "get_path (Obj entries) (k # ks) =
     (case map_of entries k of None \<Rightarrow> None | Some v \<Rightarrow> get_path v ks)"
| "get_path _ (k # ks) = None"

subsection \<open>What \<open>createTheme\<close> does with the record\<close>

text \<open>
  \<open>createTheme\<close> is the constructor of Material UI (version 5): the theme it returns is
  the record completed with the framework's defaults. The model keeps the data of a theme
  that a style role can name: palette, typography, breakpoints, shape, direction,
  component overrides and zIndex. The helper functions of a theme, its shadows,
  transitions and mixins are not part of it. The default values are those of the
  framework's light mode.

  \<open>deepmerge target source\<close>: every key of the source replaces that of the target, two
  objects under the same key are merged in turn, the keys of the target come first.
\<close>

fun deepmerge :: "jsval \<Rightarrow> jsval \<Rightarrow> jsval" where
  "deepmerge (Obj target) (Obj source) =
     Obj (map (\<lambda>(k, old).
                 (k, case map_of source k of
                       None \<Rightarrow> old
                     | Some new \<Rightarrow>
                         (case old of
                            Obj _ \<Rightarrow> (case new of Obj _ \<Rightarrow> deepmerge old new | _ \<Rightarrow> new)
                          | _ \<Rightarrow> new))) target
          @ filter (\<lambda>(k, new). map_of target k = None) source)"
| "deepmerge target source = target"

text \<open>The entries of an object, none for any other value; an object without some keys.\<close>

definition entries_of :: "jsval option \<Rightarrow> (string \<times> jsval) list" where
  "entries_of v = (case v of Some (Obj entries) \<Rightarrow> entries | _ \<Rightarrow> [])"

definition without :: "string list \<Rightarrow> (string \<times> jsval) list \<Rightarrow> (string \<times> jsval) list" where
  "without ks entries = filter (\<lambda>(k, v). k \<notin> set ks) entries"

definition or_default :: "jsval option \<Rightarrow> jsval \<Rightarrow> jsval" where
  "or_default v d = (case v of None \<Rightarrow> d | Some w \<Rightarrow> w)"

subsubsection \<open>Palette\<close>

definition common :: jsval where
  "common = Obj [(''black'', Str ''#000''), (''white'', Str ''#fff'')]"

definition grey :: jsval where
  "grey = Obj
     [(''50'', Str ''#fafafa''), (''100'', Str ''#f5f5f5''), (''200'', Str ''#eeeeee''),
      (''300'', Str ''#e0e0e0''), (''400'', Str ''#bdbdbd''), (''500'', Str ''#9e9e9e''),
      (''600'', Str ''#757575''), (''700'', Str ''#616161''), (''800'', Str ''#424242''),
      (''900'', Str ''#212121''), (''A100'', Str ''#f5f5f5''), (''A200'', Str ''#eeeeee''),
      (''A400'', Str ''#bdbdbd''), (''A700'', Str ''#616161'')]"

definition light :: "(string \<times> jsval) list" where
  "light =
     [(''text'', Obj
        [(''primary'', Str ''rgba(0, 0, 0, 0.87)''),
         (''secondary'', Str ''rgba(0, 0, 0, 0.6)''),
         (''disabled'', Str ''rgba(0, 0, 0, 0.38)'')]),
      (''divider'', Str ''rgba(0, 0, 0, 0.12)''),
      (''background'', Obj [(''paper'', Str ''#fff''), (''default'', Str ''#fff'')]),
      (''action'', Obj
        [(''active'', Str ''rgba(0, 0, 0, 0.54)''),
         (''hover'', Str ''rgba(0, 0, 0, 0.04)''),
         (''hoverOpacity'', Decimal 4 2),
         (''selected'', Str ''rgba(0, 0, 0, 0.08)''),
         (''selectedOpacity'', Decimal 8 2),
         (''disabled'', Str ''rgba(0, 0, 0, 0.26)''),
         (''disabledBackground'', Str ''rgba(0, 0, 0, 0.12)''),
         (''disabledOpacity'', Decimal 38 2),
         (''focus'', Str ''rgba(0, 0, 0, 0.12)''),
         (''focusOpacity'', Decimal 12 2),
         (''activatedOpacity'', Decimal 12 2)])]"

text \<open>The colours the framework uses for an intent that the record does not give.\<close>

definition default_colors :: "(string \<times> jsval) list" where
  "default_colors =
     [(''primary'', Obj
        [(''main'', Str ''#1976d2''), (''light'', Str ''#42a5f5''), (''dark'', Str ''#1565c0'')]),
      (''secondary'', Obj
        [(''main'', Str ''#9c27b0''), (''light'', Str ''#ba68c8''), (''dark'', Str ''#7b1fa2'')]),
      (''error'', Obj
        [(''main'', Str ''#d32f2f''), (''light'', Str ''#ef5350''), (''dark'', Str ''#c62828'')]),
      (''warning'', Obj
        [(''main'', Str ''#ed6c02''), (''light'', Str ''#ff9800''), (''dark'', Str ''#e65100'')]),
      (''info'', Obj
        [(''main'', Str ''#0288d1''), (''light'', Str ''#03a9f4''), (''dark'', Str ''#01579b'')]),
      (''success'', Obj
        [(''main'', Str ''#2e7d32''), (''light'', Str ''#4caf50''), (''dark'', Str ''#1b5e20'')])]"

text \<open>
  \<open>augmentColor\<close> completes an intent: a shade the colour lacks is computed from its main
  colour. The computation is floating-point colour arithmetic; the model keeps the call
  that yields the shade, uninterpreted.
\<close>

definition augmentColor :: "jsval \<Rightarrow> jsval" where
  "augmentColor color =
     (case color of
        Obj entries \<Rightarrow>
          (case map_of entries ''main'' of
             None \<Rightarrow> color
           | Some main \<Rightarrow>
               Obj (entries
                 @ (if map_of entries ''light'' = None
                    then [(''light'', Call ''lighten'' [main])] else [])
                 @ (if map_of entries ''dark'' = None
                    then [(''dark'', Call ''darken'' [main])] else [])
                 @ (if map_of entries ''contrastText'' = None
                    then [(''contrastText'', Call ''getContrastText'' [main])] else [])))
      | _ \<Rightarrow> color)"

definition createPalette :: "(string \<times> jsval) list \<Rightarrow> jsval" where
  "createPalette palette =
     deepmerge
       (Obj ([(''common'', common),
              (''mode'', or_default (map_of palette ''mode'') (Str ''light''))]
             @ map (\<lambda>(name, color). (name, augmentColor (or_default (map_of palette name) color)))
                 default_colors
             @ [(''grey'', grey),
                (''contrastThreshold'', or_default (map_of palette ''contrastThreshold'') (Num 3)),
                (''tonalOffset'', or_default (map_of palette ''tonalOffset'') (Decimal 2 1))]
             @ light))
       (Obj (without [''mode'', ''contrastThreshold'', ''tonalOffset''] palette))"

subsubsection \<open>Typography\<close>

definition defaultFontFamily :: string where
  "defaultFontFamily =
     [CHR 0x22] @ ''Roboto'' @ [CHR 0x22] @ '', '' @ [CHR 0x22] @ ''Helvetica'' @ [CHR 0x22]
     @ '', '' @ [CHR 0x22] @ ''Arial'' @ [CHR 0x22] @ '', sans-serif''"

text \<open>
  A text style of the framework: the font family of the theme, a weight, a size in rem
  (for the default font size 14 and root size 16), a line height and, only with the
  default font family, a letter spacing.
\<close>

definition buildVariant ::
  "jsval \<Rightarrow> jsval \<Rightarrow> string \<Rightarrow> jsval \<Rightarrow> string \<Rightarrow> (string \<times> jsval) list \<Rightarrow> jsval" where
  "buildVariant fontFamily fontWeight fontSize lineHeight letterSpacing casing =
     Obj ([(''fontFamily'', fontFamily),
           (''fontWeight'', fontWeight),
           (''fontSize'', Str fontSize),
           (''lineHeight'', lineHeight)]
          @ (if fontFamily = Str defaultFontFamily then [(''letterSpacing'', Str letterSpacing)]
             else [])
          @ casing)"

definition caseAllCaps :: "(string \<times> jsval) list" where
  "caseAllCaps = [(''textTransform'', Str ''uppercase'')]"

definition createTypography :: "(string \<times> jsval) list \<Rightarrow> jsval" where
  "createTypography typography =
     (let fontFamily = or_default (map_of typography ''fontFamily'') (Str defaultFontFamily);
          fontSize = or_default (map_of typography ''fontSize'') (Num 14);
          fontWeightLight = or_default (map_of typography ''fontWeightLight'') (Num 300);
          fontWeightRegular = or_default (map_of typography ''fontWeightRegular'') (Num 400);
          fontWeightMedium = or_default (map_of typography ''fontWeightMedium'') (Num 500);
          fontWeightBold = or_default (map_of typography ''fontWeightBold'') (Num 700);
          htmlFontSize = or_default (map_of typography ''htmlFontSize'') (Num 16)
      in deepmerge
        (Obj
          [(''htmlFontSize'', htmlFontSize),
           (''fontFamily'', fontFamily),
           (''fontSize'', fontSize),
           (''fontWeightLight'', fontWeightLight),
           (''fontWeightRegular'', fontWeightRegular),
           (''fontWeightMedium'', fontWeightMedium),
           (''fontWeightBold'', fontWeightBold),
           (''h1'', buildVariant fontFamily fontWeightLight ''6rem'' (Decimal 1167 3) ''-0.01562em'' []),
           (''h2'', buildVariant fontFamily fontWeightLight ''3.75rem'' (Decimal 12 1) ''-0.00833em'' []),
           (''h3'', buildVariant fontFamily fontWeightRegular ''3rem'' (Decimal 1167 3) ''0em'' []),
           (''h4'', buildVariant fontFamily fontWeightRegular ''2.125rem'' (Decimal 1235 3) ''0.00735em'' []),
           (''h5'', buildVariant fontFamily fontWeightRegular ''1.5rem'' (Decimal 1334 3) ''0em'' []),
           (''h6'', buildVariant fontFamily fontWeightMedium ''1.25rem'' (Decimal 16 1) ''0.0075em'' []),
           (''subtitle1'', buildVariant fontFamily fontWeightRegular ''1rem'' (Decimal 175 2) ''0.00938em'' []),
           (''subtitle2'', buildVariant fontFamily fontWeightMedium ''0.875rem'' (Decimal 157 2) ''0.00714em'' []),
           (''body1'', buildVariant fontFamily fontWeightRegular ''1rem'' (Decimal 15 1) ''0.00938em'' []),
           (''body2'', buildVariant fontFamily fontWeightRegular ''0.875rem'' (Decimal 143 2) ''0.01071em'' []),
           (''button'', buildVariant fontFamily fontWeightMedium ''0.875rem'' (Decimal 175 2) ''0.02857em'' caseAllCaps),
           (''caption'', buildVariant fontFamily fontWeightRegular ''0.75rem'' (Decimal 166 2) ''0.03333em'' []),
           (''overline'', buildVariant fontFamily fontWeightRegular ''0.75rem'' (Decimal 266 2) ''0.08333em'' caseAllCaps),
           (''inherit'', Obj
              [(''fontFamily'', Str ''inherit''),
               (''fontWeight'', Str ''inherit''),
               (''fontSize'', Str ''inherit''),
               (''lineHeight'', Str ''inherit''),
               (''letterSpacing'', Str ''inherit'')])])
        (Obj (without
          [''fontFamily'', ''fontSize'', ''fontWeightLight'', ''fontWeightRegular'',
           ''fontWeightMedium'', ''fontWeightBold'', ''htmlFontSize'', ''allVariants'', ''pxToRem'']
          typography)))"

subsubsection \<open>Breakpoints, shape, zIndex\<close>

definition createBreakpoints :: jsval where
  "createBreakpoints = Obj
     [(''values'', Obj
        [(''xs'', Num 0), (''sm'', Num 600), (''md'', Num 900), (''lg'', Num 1200),
         (''xl'', Num 1536)]),
      (''unit'', Str ''px'')]"

definition zIndex :: jsval where
  "zIndex = Obj
     [(''mobileStepper'', Num 1000), (''fab'', Num 1050), (''speedDial'', Num 1050),
      (''appBar'', Num 1100), (''drawer'', Num 1200), (''modal'', Num 1300),
      (''snackbar'', Num 1400), (''tooltip'', Num 1500)]"

subsubsection \<open>The theme\<close>

definition createTheme :: "jsval \<Rightarrow> jsval" where
  "createTheme options =
     (let given = entries_of (Some options) in
      deepmerge
        (Obj
          [(''breakpoints'', createBreakpoints),
           (''direction'', Str ''ltr''),
           (''components'', Obj []),
           (''palette'', createPalette (entries_of (map_of given ''palette''))),
           (''shape'', deepmerge (Obj [(''borderRadius'', Num 4)])
                         (Obj (entries_of (map_of given ''shape'')))),
           (''typography'', createTypography (entries_of (map_of given ''typography''))),
           (''zIndex'', zIndex)])
        (Obj (without
          [''breakpoints'', ''mixins'', ''spacing'', ''palette'', ''transitions'', ''typography'',
           ''shape'']
          given)))"

definition theme :: jsval where
  "theme = createTheme theme_record"

subsection \<open>\<open>Footer.js\<close>\<close>

text \<open>
  \<open>new Date()\<close> reads the clock; the reading is an argument of the render function. Of a
  date the footer uses the local calendar year only.
\<close>

datatype date = Date (getFullYear: int) (getMonth: nat) (getDate: nat)

text \<open>A number among JSX children is shown as its decimal numeral.\<close>

fun string_of_nat :: "nat \<Rightarrow> string" where
  "string_of_nat n =
     (if n < 10 then [''0123456789'' ! n]
      else string_of_nat (n div 10) @ [''0123456789'' ! (n mod 10)])"

definition string_of_int :: "int \<Rightarrow> string" where
  "string_of_int i = (if i < 0 then CHR ''-'' # string_of_nat (nat (- i)) else string_of_nat (nat i))"

definition copyright_sign :: string where "copyright_sign = [CHR 0xC2, CHR 0xA9]"

definition attribution :: string where
  "attribution = '' AI Fitness Health Analyzer | Powered by Google Gemini AI''"

definition Footer :: "date \<Rightarrow> element" where
  "Footer now =
     Element ''Box''
       [(''component'', Str ''footer''),
        (''sx'', Obj
          [(''py'', Num 3),
           (''px'', Num 2),
           (''mt'', Str ''auto''),
           (''background'', Str ''linear-gradient(90deg, #6C63FF 0%, #FF6584 100%)''),
           (''color'', Str ''#fff''),
           (''boxShadow'', Str ''0 -2px 12px rgba(108,99,255,0.10)'')])]
       [Element ''Container'' [(''maxWidth'', Str ''lg'')]
          [Element ''Typography''
             [(''variant'', Str ''body2''), (''color'', Str ''text.secondary''), (''align'', Str ''center'')]
             [Text (copyright_sign @ '' ''),
              Number (getFullYear now),
              Text attribution]]]"

text \<open>The text a reader sees: the text nodes of the tree, in order.\<close>

fun text_content :: "element \<Rightarrow> string" where
  "text_content (Element c ps children) = concat (map text_content children)"
| "text_content (Text t) = t"
| "text_content (Number n) = string_of_int n"

subsection \<open>\<open>App.js\<close>: the route table\<close>

datatype route = Route (route_path: string) (route_element: element)

definition routes :: "route list" where
  "routes =
     [Route ''/'' (Element ''HomePage'' [] []),
      Route ''/upload'' (Element ''UploadPage'' [] []),
      Route ''/dashboard/:id'' (Element ''DashboardPage'' [] []),
      Route ''/history'' (Element ''HistoryPage'' [] []),
      Route ''/about'' (Element ''AboutPage'' [] []),
      Route ''*'' (Element ''NotFoundPage'' [] [])]"

text \<open>The declared routes are those before the catch-all.\<close>

definition declared_routes :: "route list" where
  "declared_routes = filter (\<lambda>r. route_path r \<noteq> ''*'') routes"

text \<open>A pathname, as the browser's location has it, starts with a slash.\<close>

definition is_pathname :: "string \<Rightarrow> bool" where
  "is_pathname p = (case p of [] \<Rightarrow> False | c # cs \<Rightarrow> c = CHR ''/'')"

text \<open>The components imported under \<open>// Pages\<close>.\<close>

definition page_components :: "string list" where
  "page_components =
     [''HomePage'', ''UploadPage'', ''DashboardPage'', ''HistoryPage'', ''AboutPage'',
      ''NotFoundPage'']"

subsection \<open>What \<open>Routes\<close> does with the table\<close>

text \<open>
  \<open>Routes\<close> is the matcher of React Router (version 6). It percent-decodes the pathname
  segment by segment, gives every route a score, tries the routes from the highest score
  down (in the order of the table among equal scores) and renders the element of the
  first route whose pattern matches the whole decoded pathname. A pattern is compiled to
  a regular expression; the model matches as that expression does, segment by segment:
  a static segment matches itself, letter case ignored; a segment \<open>:name\<close> matches one
  non-empty segment and binds \<open>name\<close> to it; slashes at the end of the pathname are
  ignored; the pattern \<open>*\<close> matches what follows the first slash, unless that holds a
  line terminator (the dot of a regular expression matches none). The patterns of this
  table use nothing else (no optional segments, no nested routes).
\<close>

fun split_on :: "char \<Rightarrow> string \<Rightarrow> string list" where
  "split_on sep [] = [[]]"
| "split_on sep (c # cs) =
     (if c = sep then [] # split_on sep cs
      else (case split_on sep cs of [] \<Rightarrow> [[c]] | w # ws \<Rightarrow> (c # w) # ws))"

definition lower_case :: "char \<Rightarrow> char" where
  "lower_case c =
     (case map_of (zip ''ABCDEFGHIJKLMNOPQRSTUVWXYZ'' ''abcdefghijklmnopqrstuvwxyz'') c of
        None \<Rightarrow> c | Some l \<Rightarrow> l)"

text \<open>The first character of a pathname after its leading slash, in lower case.\<close>

definition first_letter :: "string \<Rightarrow> char option" where
  "first_letter p = (case p of c # d # ds \<Rightarrow> Some (lower_case d) | _ \<Rightarrow> None)"

definition word_char :: "char \<Rightarrow> bool" where
  "word_char c \<longleftrightarrow>
     c \<in> set (''abcdefghijklmnopqrstuvwxyz'' @ ''ABCDEFGHIJKLMNOPQRSTUVWXYZ'' @ ''0123456789_'')"

text \<open>A segment that is a parameter: a colon and a name of word characters and dashes.\<close>

definition paramRe :: "string \<Rightarrow> bool" where
  "paramRe segment =
     (case segment of
        [] \<Rightarrow> False
      | c # name \<Rightarrow> c = CHR '':'' \<and> name \<noteq> [] \<and> list_all (\<lambda>x. word_char x \<or> x = CHR ''-'') name)"

definition computeScore :: "string \<Rightarrow> bool \<Rightarrow> int" where
  "computeScore path index =
     (let segments = split_on CHR ''/'' path;
          initialScore = int (length segments)
            + (if ''*'' \<in> set segments then - 2 else 0)
            + (if index then 2 else 0)
      in fold (\<lambda>segment score.
                 score + (if paramRe segment then 3 else if segment = [] then 1 else 10))
           (filter (\<lambda>s. s \<noteq> ''*'') segments) initialScore)"

text \<open>Joining the parent path (empty for a top-level route) and the route's own path.\<close>

fun collapse_slashes :: "string \<Rightarrow> string" where
  "collapse_slashes (a # b # cs) =
     (if a = CHR ''/'' \<and> b = CHR ''/'' then collapse_slashes (b # cs)
      else a # collapse_slashes (b # cs))"
| "collapse_slashes cs = cs"

definition joinPaths :: "string \<Rightarrow> string \<Rightarrow> string" where
  "joinPaths parent child = collapse_slashes (parent @ ''/'' @ child)"

datatype branch = Branch (branch_path: string) (branch_score: int) (branch_route: route)

definition flattenRoutes :: "route list \<Rightarrow> branch list" where
  "flattenRoutes rs =
     map (\<lambda>r. let path = joinPaths [] (route_path r) in Branch path (computeScore path False) r) rs"

text \<open>Higher scores first; the sort is stable, so equal scores keep the order of the table.\<close>

definition rankRouteBranches :: "branch list \<Rightarrow> branch list" where
  "rankRouteBranches branches = sort_key (\<lambda>b. - branch_score b) branches"

subsubsection \<open>Decoding the pathname\<close>

text \<open>
  \<open>decodeURIComponent\<close>: a percent sign starts an escape of two hexadecimal digits, one
  octet. An octet below 128 is that character. Any other octet starts the UTF-8 sequence
  of a code point, whose further octets must be the escapes that follow, and the sequence
  must be well formed (no overlong form, no surrogate, nothing above U+10FFFF). The
  result holds the octets of the sequence, since strings are UTF-8 here. A malformed
  escape or sequence is the \<open>URIError\<close> of JavaScript: \<open>None\<close>.
\<close>

definition hex_digit :: "char \<Rightarrow> nat option" where
  "hex_digit c =
     map_of (zip ''0123456789abcdefABCDEF''
        [0, 1, 2, 3, 4, 5, 6, 7, 8, 9, 10, 11, 12, 13, 14, 15, 10, 11, 12, 13, 14, 15]) c"

datatype token = Literal char | Octet nat

fun tokens :: "string \<Rightarrow> token list option" where
  "tokens [] = Some []"
| "tokens (c # cs) =
     (if c = CHR ''%'' then
        (case cs of
           h # l # rest \<Rightarrow>
             (case hex_digit h of
                None \<Rightarrow> None
              | Some a \<Rightarrow>
                  (case hex_digit l of
                     None \<Rightarrow> None
                   | Some b \<Rightarrow> map_option ((#) (Octet (16 * a + b))) (tokens rest)))
         | _ \<Rightarrow> None)
      else map_option ((#) (Literal c)) (tokens cs))"

text \<open>The number of leading one bits of an octet (5 stands for five or more).\<close>

definition leading_ones :: "nat \<Rightarrow> nat" where
  "leading_ones b =
     (if b < 0x80 then 0 else if b < 0xC0 then 1 else if b < 0xE0 then 2
      else if b < 0xF0 then 3 else if b < 0xF8 then 4 else 5)"

definition continuation :: "nat \<Rightarrow> bool" where
  "continuation b \<longleftrightarrow> 0x80 \<le> b \<and> b \<le> 0xBF"

definition valid_utf8 :: "nat list \<Rightarrow> bool" where
  "valid_utf8 octets =
     (case octets of
        [a, b] \<Rightarrow> 0xC2 \<le> a \<and> a \<le> 0xDF \<and> continuation b
      | [a, b, c] \<Rightarrow>
          continuation c \<and>
          (a = 0xE0 \<and> 0xA0 \<le> b \<and> b \<le> 0xBF
           \<or> 0xE1 \<le> a \<and> a \<le> 0xEC \<and> continuation b
           \<or> a = 0xED \<and> 0x80 \<le> b \<and> b \<le> 0x9F
           \<or> 0xEE \<le> a \<and> a \<le> 0xEF \<and> continuation b)
      | [a, b, c, d] \<Rightarrow>
          continuation c \<and> continuation d \<and>
          (a = 0xF0 \<and> 0x90 \<le> b \<and> b \<le> 0xBF
           \<or> 0xF1 \<le> a \<and> a \<le> 0xF3 \<and> continuation b
           \<or> a = 0xF4 \<and> 0x80 \<le> b \<and> b \<le> 0x8F)
      | _ \<Rightarrow> False)"

fun octets_of :: "token list \<Rightarrow> nat list option" where
  "octets_of [] = Some []"
| "octets_of (Octet b # ts) = map_option ((#) b) (octets_of ts)"
| "octets_of (Literal c # ts) = None"

function decode_tokens :: "token list \<Rightarrow> string option" where
  "decode_tokens [] = Some []"
| "decode_tokens (Literal c # ts) = map_option ((#) c) (decode_tokens ts)"
| "decode_tokens (Octet b # ts) =
     (let n = leading_ones b in
      if n = 0 then map_option ((#) (char_of b)) (decode_tokens ts)
      else if n = 1 \<or> n > 4 then None
      else if length ts < n - 1 then None
      else (case octets_of (take (n - 1) ts) of
              None \<Rightarrow> None
            | Some continuations \<Rightarrow>
                if valid_utf8 (b # continuations)
                then map_option ((@) (map char_of (b # continuations)))
                       (decode_tokens (drop (n - 1) ts))
                else None))"
  by pat_completeness auto
termination
  by (relation "measure length") auto

definition decodeURIComponent :: "string \<Rightarrow> string option" where
  "decodeURIComponent s = (case tokens s of None \<Rightarrow> None | Some ts \<Rightarrow> decode_tokens ts)"

text \<open>
  \<open>decodePath\<close> decodes every segment and writes a slash that a segment decodes to as
  \<open>%2F\<close> again, so that the segments stay what they were; a pathname with a segment that
  cannot be decoded is left as it is.
\<close>

definition escape_slashes :: "string \<Rightarrow> string" where
  "escape_slashes s = concat (map (\<lambda>c. if c = CHR ''/'' then ''%2F'' else [c]) s)"

fun join :: "string list \<Rightarrow> string" where
  "join [] = []"
| "join [s] = s"
| "join (s # t # ts) = s @ CHR ''/'' # join (t # ts)"

definition decodePath :: "string \<Rightarrow> string" where
  "decodePath v =
     (case those (map decodeURIComponent (split_on CHR ''/'' v)) of
        None \<Rightarrow> v
      | Some segments \<Rightarrow> join (map escape_slashes segments))"

text \<open>
  What \<open>decodePath\<close> makes of a segment when the other segments of the pathname hold no
  escape.
\<close>

definition decoded_segment :: "string \<Rightarrow> string" where
  "decoded_segment seg =
     (case decodeURIComponent seg of None \<Rightarrow> seg | Some v \<Rightarrow> escape_slashes v)"

text \<open>The value of a parameter is what the pattern captured, every \<open>%2F\<close> a slash again.\<close>

fun replace_2F :: "string \<Rightarrow> string" where
  "replace_2F (a # b # c # rest) =
     (if a = CHR ''%'' \<and> b = CHR ''2'' \<and> c = CHR ''F'' then CHR ''/'' # replace_2F rest
      else a # replace_2F (b # c # rest))"
| "replace_2F s = s"

text \<open>
  The line terminators of JavaScript: line feed, carriage return, U+2028 and U+2029 (in
  UTF-8 the octets E2 80 A8 and E2 80 A9).
\<close>

fun has_line_terminator :: "string \<Rightarrow> bool" where
  "has_line_terminator [] = False"
| "has_line_terminator (c # cs) =
     (c = CHR 0x0A \<or> c = CHR 0x0D
      \<or> (c = CHR 0xE2 \<and> (take 2 cs = [CHR 0x80, CHR 0xA8] \<or> take 2 cs = [CHR 0x80, CHR 0xA9]))
      \<or> has_line_terminator cs)"

subsubsection \<open>Matching a pattern\<close>

datatype segment = Static string | Param string

datatype ending = End | AnyRest | SubPath

definition compilePath :: "string \<Rightarrow> segment list \<times> ending" where
  "compilePath path =
     (let starless = (if path \<noteq> [] \<and> last path = CHR ''*'' then butlast path else path);
          stripped = rev (dropWhile (\<lambda>c. c = CHR ''/'') (rev starless));
          unrooted = dropWhile (\<lambda>c. c = CHR ''/'') stripped;
          segments = map (\<lambda>s. if paramRe s then Param (tl s) else Static s)
                       (split_on CHR ''/'' unrooted)
      in (segments,
          if path \<noteq> [] \<and> last path = CHR ''*''
          then (if path = ''*'' \<or> path = ''/*'' then AnyRest else SubPath)
          else End))"

type_synonym params = "(string \<times> string) list"

fun match_segments :: "segment list \<Rightarrow> string \<Rightarrow> (params \<times> string) option" where
  "match_segments [] rest = Some ([], rest)"
| "match_segments (Static s # segs) pathname =
     (case pathname of
        [] \<Rightarrow> None
      | c # cs \<Rightarrow>
          if c = CHR ''/'' \<and> map lower_case (take (length s) cs) = map lower_case s
          then match_segments segs (drop (length s) cs)
          else None)"
| "match_segments (Param name # segs) pathname =
     (case pathname of
        [] \<Rightarrow> None
      | c # cs \<Rightarrow>
          let v = takeWhile (\<lambda>x. x \<noteq> CHR ''/'') cs in
          if c = CHR ''/'' \<and> v \<noteq> []
          then (case match_segments segs (dropWhile (\<lambda>x. x \<noteq> CHR ''/'') cs) of
                  None \<Rightarrow> None
                | Some (ps, rest) \<Rightarrow> Some ((name, v) # ps, rest))
          else None)"

text \<open>
  What may follow the segments: only slashes; for the pattern \<open>*\<close> anything without a line
  terminator; for a pattern \<open>.../*\<close> a slash and a non-empty rest without a line
  terminator, or only slashes.
\<close>

definition match_ending :: "ending \<Rightarrow> string \<Rightarrow> params option" where
  "match_ending ending rest =
     (case ending of
        End \<Rightarrow> if list_all (\<lambda>c. c = CHR ''/'') rest then Some [] else None
      | AnyRest \<Rightarrow> if has_line_terminator rest then None else Some [(''*'', rest)]
      | SubPath \<Rightarrow>
          (case rest of
             c # d # ds \<Rightarrow>
               if c = CHR ''/'' \<and> \<not> has_line_terminator (d # ds) then Some [(''*'', d # ds)]
               else if list_all (\<lambda>c. c = CHR ''/'') rest then Some [(''*'', [])]
               else None
           | _ \<Rightarrow> if list_all (\<lambda>c. c = CHR ''/'') rest then Some [(''*'', [])] else None))"

definition matchPath :: "string \<Rightarrow> string \<Rightarrow> params option" where
  "matchPath path pathname =
     (case compilePath path of
        (segments, ending) \<Rightarrow>
          (case match_segments segments pathname of
             None \<Rightarrow> None
           | Some (ps, rest) \<Rightarrow>
               (case match_ending ending rest of
                  None \<Rightarrow> None
                | Some extra \<Rightarrow> Some (map (\<lambda>(name, v). (name, replace_2F v)) (ps @ extra)))))"

fun first_match :: "branch list \<Rightarrow> string \<Rightarrow> (route \<times> params) option" where
  "first_match [] pathname = None"
| "first_match (b # bs) pathname =
     (case matchPath (route_path (branch_route b)) pathname of
        None \<Rightarrow> first_match bs pathname
      | Some ps \<Rightarrow> Some (branch_route b, ps))"

text \<open>
  An empty \<open>location.pathname\<close> counts as \<open>/\<close>; the routes are matched against the decoded
  pathname.
\<close>

definition matchRoutes :: "route list \<Rightarrow> string \<Rightarrow> (route \<times> params) option" where
  "matchRoutes rs location_pathname =
     (let pathname = (if location_pathname = [] then ''/'' else location_pathname);
          decoded = decodePath pathname
      in first_match (rankRouteBranches (flattenRoutes rs)) decoded)"

text \<open>
  The matched element is rendered inside a context that carries the path parameters
  (what \<open>useParams\<close> reads); without a match \<open>Routes\<close> renders nothing.
\<close>

definition Routes :: "route list \<Rightarrow> string \<Rightarrow> element" where
  "Routes rs pathname =
     Element ''Routes'' []
       (case matchRoutes rs pathname of
          None \<Rightarrow> []
        | Some (r, ps) \<Rightarrow>
            [Element ''RouteContext.Provider''
               [(''params'', Obj (map (\<lambda>(k, v). (k, Str v)) ps))]
               [route_element r]])"

subsection \<open>\<open>App.js\<close>: the shell\<close>

text \<open>
  \<open>App\<close> at a clock reading and a location. \<open>Header\<close> and the pages are imported from
  files outside this development: they are leaves. \<open>Footer\<close> is the instance with what it
  renders below it.
\<close>

definition App :: "date \<Rightarrow> string \<Rightarrow> element" where
  "App now pathname =
     Element ''BrowserRouter'' []
       [Element ''ThemeProvider'' [(''theme'', theme)]
          [Element ''CssBaseline'' [] [],
           Element ''Box''
             [(''sx'', Obj
                [(''display'', Str ''flex''),
                 (''flexDirection'', Str ''column''),
                 (''minHeight'', Str ''100vh'')])]
             [Element ''Header'' [] [],
              Element ''Box'' [(''sx'', Obj [(''flexGrow'', Num 1), (''py'', Num 3)])]
                [Routes routes pathname],
              Element ''Footer'' [] [Footer now]]]]"

text \<open>The names of the component instances of a tree, parents before children.\<close>

fun tags :: "element \<Rightarrow> string list" where
  "tags (Element c ps children) = c # concat (map tags children)"
| "tags (Text t) = []"
| "tags (Number n) = []"

definition rendered_pages :: "element \<Rightarrow> string list" where
  "rendered_pages t = filter (\<lambda>c. c \<in> set page_components) (tags t)"

text \<open>What \<open>useParams\<close> gives the routed page: the params of the route context.\<close>

fun route_params :: "element \<Rightarrow> (string \<times> jsval) list list" where
  "route_params (Element c ps children) =
     (if c = ''RouteContext.Provider''
      then (case map_of ps ''params'' of Some (Obj kvs) \<Rightarrow> [kvs] | _ \<Rightarrow> [])
      else []) @ concat (map route_params children)"
| "route_params (Text t) = []"
| "route_params (Number n) = []"

subsection \<open>Navigation\<close>

text \<open>
  The content region is what \<open>Routes\<close> renders; the rest of the tree is the shell with
  \<open>Header\<close>, \<open>Footer\<close> and the theme.
\<close>

fun outside_content :: "element \<Rightarrow> element" where
  "outside_content (Element c ps children) =
     Element c ps (if c = ''Routes'' then [] else map outside_content children)"
| "outside_content (Text t) = Text t"
| "outside_content (Number n) = Number n"

text \<open>
  React keeps a component instance from one render to the next when the element at the
  same position has the same type, and goes on with its children, position by position;
  an element of another type, or one with no predecessor, is mounted afresh with
  everything below it. \<open>mounted old new\<close> lists the instances that rendering \<open>new\<close> in the
  place of \<open>old\<close> mounts.
\<close>

fun mounted_children :: "element list \<Rightarrow> element list \<Rightarrow> string list" where
  "mounted_children olds [] = []"
| "mounted_children [] (new # news) = tags new @ mounted_children [] news"
| "mounted_children (Element c ps children # olds) (Element c' ps' children' # news) =
     (if c = c' then mounted_children children children'
      else tags (Element c' ps' children'))
     @ mounted_children olds news"
| "mounted_children (old # olds) (new # news) = tags new @ mounted_children olds news"

definition mounted :: "element \<Rightarrow> element \<Rightarrow> string list" where
  "mounted old new = mounted_children [old] [new]"

text \<open>
  A session: the first render at the first location, then one render for each navigation
  event. The log lists every mount of the session in order.
\<close>

fun mount_log :: "date \<Rightarrow> string \<Rightarrow> string list \<Rightarrow> string list" where
  "mount_log now pathname [] = []"
| "mount_log now pathname (next_pathname # later) =
     mounted (App now pathname) (App now next_pathname) @ mount_log now next_pathname later"

definition session_mounts :: "date \<Rightarrow> string \<Rightarrow> string list \<Rightarrow> string list" where
  "session_mounts now pathname navigations =
     tags (App now pathname) @ mount_log now pathname navigations"

subsection \<open>Style roles\<close>






subsection \<open>Reading the footer\<close>

text \<open>
  The year a reader finds in the copyright text: the decimal numeral, with its sign, that
  follows the copyright sign and the space.
\<close>

definition digit_value :: "char \<Rightarrow> nat" where
  "digit_value c = length (takeWhile (\<lambda>d. d \<noteq> c) ''0123456789'')"

definition is_digit :: "char \<Rightarrow> bool" where
  "is_digit c \<longleftrightarrow> c \<in> set ''0123456789''"

definition nat_of_string :: "string \<Rightarrow> nat" where
  "nat_of_string ds = fold (\<lambda>d n. 10 * n + digit_value d) ds 0"

definition int_of_string :: "string \<Rightarrow> int" where
  "int_of_string t =
     (case t of
        [] \<Rightarrow> 0
      | c # cs \<Rightarrow> if c = CHR ''-'' then - int (nat_of_string cs) else int (nat_of_string t))"

definition displayed_year :: "string \<Rightarrow> int option" where
  "displayed_year t =
     (let after = drop (length copyright_sign + 1) t;
          numeral = (case after of
                       [] \<Rightarrow> []
                     | c # cs \<Rightarrow> if c = CHR ''-'' then c # takeWhile is_digit cs
                                else takeWhile is_digit after)
      in if take (length copyright_sign + 1) t = copyright_sign @ '' '' \<and> numeral \<noteq> [] \<and> numeral \<noteq> ''-''
         then Some (int_of_string numeral) else None)"

subsection \<open>Runs of the script used below\<close>

definition force_push :: "string list" where
  "force_push = [''push'', ''--force-with-lease'', ''origin'', ''main'']"

definition plain_push :: "string list" where
  "plain_push = [''push'', ''origin'', ''main'']"

definition is_push :: "string list \<Rightarrow> bool" where
  "is_push args = (case args of [] \<Rightarrow> False | a # _ \<Rightarrow> a = ''push'')"

definition is_commit :: "string list \<Rightarrow> bool" where
  "is_commit args = (case args of [] \<Rightarrow> False | a # _ \<Rightarrow> a = ''commit'')"

text \<open>The git commands that change the index, the history or the remote.\<close>

definition changes_repository :: "string list \<Rightarrow> bool" where
  "changes_repository args =
     (case args of [] \<Rightarrow> False | a # _ \<Rightarrow> a \<in> set [''add'', ''commit'', ''push''])"

definition last_git_status :: "env \<Rightarrow> int option" where
  "last_git_status e =
     (case rev (git_commands (trace (repush_to_github e))) of
        [] \<Rightarrow> None
      | args # _ \<Rightarrow> Some (git_rc e args))"

text \<open>Git is not on the path: every \<open>git\<close> line ends with status 9009.\<close>

definition git_absent :: env where
  "git_absent =
     \<lparr>git_rc = (\<lambda>args. 9009), git_dir_exists = True, typed = [],
      inherited_commit_message = [], start_ok = True\<rparr>"

text \<open>Git works, the directory has no \<open>.git\<close>.\<close>

definition outside_repository :: env where
  "outside_repository =
     \<lparr>git_rc = (\<lambda>args. 0), git_dir_exists = False, typed = [],
      inherited_commit_message = [], start_ok = True\<rparr>"

text \<open>
  A new shell (no \<open>commit_message\<close> yet) in a repository with staged changes
  (\<open>git diff --cached --quiet\<close> ends with 1); git refuses a commit with an empty message;
  the pushes succeed. The operator types a message, or only presses Enter.
\<close>

definition staged_changes :: "string list \<Rightarrow> int" where
  "staged_changes args =
     (if args = [''diff'', ''--cached'', ''--quiet''] \<or> args = [''commit'', ''-m'', []] then 1 else 0)"

definition operator_types_message :: env where
  "operator_types_message =
     \<lparr>git_rc = staged_changes, git_dir_exists = True, typed = ''fix typo'',
      inherited_commit_message = [], start_ok = True\<rparr>"

definition operator_presses_enter :: env where
  "operator_presses_enter =
     \<lparr>git_rc = staged_changes, git_dir_exists = True, typed = [],
      inherited_commit_message = [], start_ok = True\<rparr>"

text \<open>Both pushes fail with status 128; nothing is staged.\<close>

definition rejected :: env where
  "rejected =
     \<lparr>git_rc = (\<lambda>args. if is_push args then 128 else 0), git_dir_exists = True, typed = [],
      inherited_commit_message = [], start_ok = True\<rparr>"

section \<open>Properties of the push script\<close>

subsection \<open>Running the script step by step\<close>

lemma run_Nil: "run [] s = s"
  by (simp add: run_def)

lemma run_Cons: "run (c # cs) s = run cs (c s)"
  by (simp add: run_def)

lemma echo_sel:
  "errorlevel (echo t s) = errorlevel s"
  "commit_message (echo t s) = commit_message s"
  "trace (echo t s) = trace s @ [Echo t]"
  by (simp_all add: echo_def)

lemma pause_sel:
  "errorlevel (pause s) = errorlevel s"
  "commit_message (pause s) = commit_message s"
  "trace (pause s) = trace s @ [Pause]"
  by (simp_all add: pause_def)

lemma git_sel:
  "errorlevel (git e args s) = git_rc e args"
  "commit_message (git e args s) = commit_message s"
  "trace (git e args s) = trace s @ [Git args]"
  by (simp_all add: git_def)

lemma set_p_sel:
  "errorlevel (set_p e p s) = (if typed e = [] then 1 else errorlevel s)"
  "commit_message (set_p e p s) = (if typed e = [] then commit_message s else typed e)"
  "trace (set_p e p s) = trace s @ [Prompt p]"
  by (simp_all add: set_p_def)

lemma set_commit_message_sel:
  "errorlevel (set_commit_message v s) = errorlevel s"
  "commit_message (set_commit_message v s) = v"
  "trace (set_commit_message v s) = trace s @ [SetVar v]"
  by (simp_all add: set_commit_message_def)

lemma start_sel:
  "errorlevel (start e u s) = (if start_ok e then errorlevel s else 9059)"
  "commit_message (start e u s) = commit_message s"
  "trace (start e u s) = trace s @ [Start u]"
  by (simp_all add: start_def)

lemma unrecognized_sel:
  "errorlevel (unrecognized w s) = 9009"
  "commit_message (unrecognized w s) = commit_message s"
  "trace (unrecognized w s) = trace s @ [Unrecognized w]"
  by (simp_all add: unrecognized_def)

lemma exit_b_sel:
  "errorlevel (exit_b n s) = n"
  "commit_message (exit_b n s) = commit_message s"
  "trace (exit_b n s) = trace s @ [Exit n]"
  by (simp_all add: exit_b_def)

lemma initial_sel:
  "errorlevel (initial e) = 0"
  "commit_message (initial e) = inherited_commit_message e"
  "trace (initial e) = []"
  by (simp_all add: initial_def)

lemma git_commands_append: "git_commands (xs @ ys) = git_commands xs @ git_commands ys"
  by (induction xs rule: git_commands.induct) simp_all

lemma echoed_append: "echoed (xs @ ys) = echoed xs @ echoed ys"
  by (simp add: echoed_def)

lemma echoed_Cons:
  "echoed [] = []"
  "echoed (Echo t # as) = t # echoed as"
  "echoed (Git a # as) = echoed as"
  "echoed (Prompt p # as) = echoed as"
  "echoed (SetVar v # as) = echoed as"
  "echoed (Pause # as) = echoed as"
  "echoed (Start u # as) = echoed as"
  "echoed (Unrecognized w # as) = echoed as"
  "echoed (Exit n # as) = echoed as"
  by (simp_all add: echoed_def)

lemmas step = run_Nil run_Cons echo_sel pause_sel git_sel set_p_sel set_commit_message_sel
  start_sel unrecognized_sel exit_b_sel initial_sel git_commands_append echoed_append echoed_Cons

lemmas script = repush_to_github_def git_missing_def not_a_repository_def publish_def
  commit_block_def push_block_def push_succeeded_def push_failed_def regular_push_report_def
  Let_def

lemmas git_names = force_push_def plain_push_def is_push_def is_commit_def
  changes_repository_def

lemmas emoji = rocket_def check_mark_def globe_def memo_def party_def dart_def train_def
  zap_def cross_mark_def glowing_star_def

subsection \<open>The guards\<close>

text \<open>
  Claim C10. If \<open>git --version\<close> fails or the directory has no \<open>.git\<close>, the script exits
  with status 1, and the only git command it has run is \<open>git --version\<close>: nothing was
  staged, committed or pushed, so the repository is as it was.
\<close>

theorem guards_exit_before_any_change:
  assumes "git_rc e [''--version''] \<noteq> 0 \<or> \<not> git_dir_exists e"
  shows "exit_status e = 1
    \<and> git_commands (trace (repush_to_github e)) = [[''--version'']]
    \<and> filter changes_repository (git_commands (trace (repush_to_github e))) = []"
  using assms by (auto simp: exit_status_def script step git_names)

theorem guards_exit_before_any_change_witness:
  "git_rc git_absent [''--version''] = 9009
   \<and> exit_status git_absent = 1
   \<and> git_commands (trace (repush_to_github git_absent)) = [[''--version'']]
   \<and> \<not> git_dir_exists outside_repository
   \<and> exit_status outside_repository = 1
   \<and> git_commands (trace (repush_to_github outside_repository)) = [[''--version'']]"
proof -
  have absent: "git_rc git_absent [''--version''] = 9009"
    by (simp add: git_absent_def)
  have outside: "\<not> git_dir_exists outside_repository"
    by (simp add: outside_repository_def)
  from guards_exit_before_any_change [of git_absent]
    guards_exit_before_any_change [of outside_repository]
  show ?thesis
    by (simp add: absent outside)
qed

subsection \<open>The commit\<close>

text \<open>
  Claim C6 says that the commit carries the message the operator types, or the default
  message after an empty input. In a new shell with staged changes the script runs
  \<open>git commit -m ""\<close> in both cases: the message of line 40 was substituted before line 34
  read the input and before line 37 stored the default.
\<close>

theorem typed_message_not_committed:
  "git_commands (trace (repush_to_github operator_types_message)) =
     [[''--version''], [''status'', ''--porcelain''], [''add'', ''.''],
      [''diff'', ''--cached'', ''--quiet''], [''commit'', ''-m'', []],
      [''branch'', ''--show-current''], force_push, [''log'', ''--oneline'', ''-5'']]
   \<and> git_commands (trace (repush_to_github operator_presses_enter)) =
     [[''--version''], [''status'', ''--porcelain''], [''add'', ''.''],
      [''diff'', ''--cached'', ''--quiet''], [''commit'', ''-m'', []],
      [''branch'', ''--show-current''], force_push, [''log'', ''--oneline'', ''-5'']]"
  by (simp add: operator_types_message_def operator_presses_enter_def staged_changes_def
      script step git_names)

text \<open>
  In general the script commits exactly when \<open>git diff --cached --quiet\<close> reports staged
  changes, and the message is the value \<open>commit_message\<close> had when the script started,
  whatever the operator types.
\<close>

lemma commit_uses_inherited_message:
  assumes "git_rc e [''--version''] = 0" and "git_dir_exists e"
  shows "filter is_commit (git_commands (trace (repush_to_github e))) =
     (if git_rc e [''diff'', ''--cached'', ''--quiet''] \<noteq> 0
      then [[''commit'', ''-m'', inherited_commit_message e]] else [])"
  using assms by (simp add: script step git_names)

subsection \<open>The push\<close>

text \<open>
  Claim C7. When the forced push fails, the script runs the plain push once and no other
  git command after it: of all the pushes of the run the first is the forced one and the
  second and last the plain one. The guidance for the operator (the list of possible
  solutions) is printed.
\<close>

theorem one_fallback_push:
  assumes "git_rc e [''--version''] = 0" and "git_dir_exists e" and "git_rc e force_push \<noteq> 0"
  shows "filter is_push (git_commands (trace (repush_to_github e))) = [force_push, plain_push]
    \<and> dropWhile (\<lambda>args. args \<noteq> force_push) (git_commands (trace (repush_to_github e)))
        = [force_push, plain_push]
    \<and> set [''Possible solutions:'',
            ''1. Check your internet connection'',
            ''2. Verify your GitHub credentials'',
            ''3. Try regular push: git push origin main'',
            ''4. If conflicts exist, try: git pull origin main'']
        \<subseteq> set (echoed (trace (repush_to_github e)))"
  using assms by (simp add: script step git_names)

theorem one_fallback_push_witness:
  "git_rc rejected [''--version''] = 0 \<and> git_dir_exists rejected
   \<and> git_rc rejected force_push \<noteq> 0
   \<and> filter is_push (git_commands (trace (repush_to_github rejected))) = [force_push, plain_push]"
  using one_fallback_push [of rejected]
  by (simp add: rejected_def git_names)

text \<open>
  The report of lines 93 to 101 on the plain push is never printed: its condition is the
  status of the forced push, which is not 0 in this branch.
\<close>

lemma manual_commands_never_printed:
  "''Manual commands to try:'' \<notin> set (echoed (trace (repush_to_github e)))"
  by (simp add: script step git_names emoji)

subsection \<open>The exit status\<close>

text \<open>
  Claim C8 as stated: the script exits with the exit status of the git command it ran.
  Outside a repository the only git command is \<open>git --version\<close>, which ends with 0, and
  the script exits with 1.
\<close>

theorem exit_status_counterexample:
  "git_commands (trace (repush_to_github outside_repository)) = [[''--version'']]
   \<and> last_git_status outside_repository = Some 0
   \<and> exit_status outside_repository = 1
   \<and> exit_status outside_repository
       \<notin> set (map (git_rc outside_repository)
                (git_commands (trace (repush_to_github outside_repository))))"
  by (simp add: last_git_status_def exit_status_def outside_repository_def script step)

text \<open>
  Claim C8, amended. The script exits with 1 when a guard stops it. Past the guards, and
  when \<open>start\<close> could open the browser, it exits with the status of the last git command
  it ran: \<open>git log\<close> after a forced push that succeeded, the plain push after one that
  failed. On each of these paths it prints guidance: where to get git, which script to run
  first, the next steps, the possible solutions.
\<close>

theorem exit_status_and_guidance:
  "exit_status e =
     (if git_rc e [''--version''] \<noteq> 0 \<or> \<not> git_dir_exists e then 1
      else if \<not> start_ok e then 9059
      else if git_rc e force_push = 0 then git_rc e [''log'', ''--oneline'', ''-5'']
      else git_rc e plain_push)
   \<and> (git_rc e [''--version''] = 0 \<and> git_dir_exists e \<and> start_ok e
        \<longrightarrow> Some (exit_status e) = last_git_status e)
   \<and> (if git_rc e [''--version''] \<noteq> 0
       then ''Please install Git from https://git-scm.com/''
      else if \<not> git_dir_exists e
       then ''Please run push_to_github.bat first to initialize the repository.''
      else if git_rc e force_push = 0
       then party @ '' Next Steps - Deploy for FREE:''
      else ''Possible solutions:'') \<in> set (echoed (trace (repush_to_github e)))"
  by (simp add: exit_status_def last_git_status_def script step git_names emoji)

theorem exit_status_and_guidance_witness:
  "git_rc rejected [''--version''] = 0 \<and> git_dir_exists rejected \<and> start_ok rejected
   \<and> exit_status rejected = 128
   \<and> last_git_status rejected = Some 128
   \<and> ''Possible solutions:'' \<in> set (echoed (trace (repush_to_github rejected)))"
proof -
  have facts:
    "git_rc rejected [''--version''] = 0" "git_dir_exists rejected" "start_ok rejected"
    "git_rc rejected force_push = 128" "git_rc rejected plain_push = 128"
    by (simp_all add: rejected_def git_names)
  from exit_status_and_guidance [of rejected] show ?thesis
    by (auto simp: facts)
qed

section \<open>Properties of the router\<close>

subsection \<open>Decoding\<close>

lemma tokens_plain: "CHR ''%'' \<notin> set s \<Longrightarrow> tokens s = Some (map Literal s)"
  by (induction s) auto

lemma decode_literals: "decode_tokens (map Literal s) = Some s"
  by (induction s) auto

text \<open>A string without a percent sign decodes to itself.\<close>

lemma decode_plain: "CHR ''%'' \<notin> set s \<Longrightarrow> decodeURIComponent s = Some s"
  by (simp add: decodeURIComponent_def tokens_plain decode_literals)

lemma tokens_nonempty: "tokens s = Some ts \<Longrightarrow> s \<noteq> [] \<Longrightarrow> ts \<noteq> []"
  by (cases s) (auto split: if_splits list.splits option.splits)

lemma decode_tokens_nonempty:
  assumes "decode_tokens ts = Some v" and "ts \<noteq> []"
  shows "v \<noteq> []"
proof (cases ts)
  case Nil
  with assms show ?thesis by simp
next
  case (Cons t ts')
  with assms show ?thesis
    by (cases t) (auto simp: Let_def split: if_splits option.splits)
qed

lemma decode_nonempty: "decodeURIComponent s = Some v \<Longrightarrow> s \<noteq> [] \<Longrightarrow> v \<noteq> []"
  by (auto simp: decodeURIComponent_def split: option.splits
      dest: tokens_nonempty decode_tokens_nonempty)

lemma escape_no_slash: "CHR ''/'' \<notin> set (escape_slashes v)"
  by (induction v) (auto simp: escape_slashes_def)

lemma escape_nonempty: "v \<noteq> [] \<Longrightarrow> escape_slashes v \<noteq> []"
  by (cases v) (auto simp: escape_slashes_def)

lemma escape_plain: "CHR ''/'' \<notin> set v \<Longrightarrow> escape_slashes v = v"
  by (induction v) (auto simp: escape_slashes_def)

lemma replace_2F_plain: "CHR ''%'' \<notin> set s \<Longrightarrow> replace_2F s = s"
  by (induction s rule: replace_2F.induct) auto

lemma split_on_no_sep: "sep \<notin> set s \<Longrightarrow> split_on sep s = [s]"
  by (induction s) auto

lemma split_on_append: "sep \<notin> set a \<Longrightarrow> split_on sep (a @ sep # b) = a # split_on sep b"
  by (induction a) auto

lemma split_on_nonempty: "split_on sep s \<noteq> []"
  by (induction s) (auto split: list.splits)

lemma decoded_segment_shape:
  assumes "seg \<noteq> []" and "CHR ''/'' \<notin> set seg"
  shows "decoded_segment seg \<noteq> []" and "CHR ''/'' \<notin> set (decoded_segment seg)"
  using assms
  by (auto simp: decoded_segment_def escape_no_slash split: option.splits
      dest: decode_nonempty escape_nonempty)

lemma decoded_segment_plain:
  assumes "CHR ''/'' \<notin> set seg" and "CHR ''%'' \<notin> set seg"
  shows "replace_2F (decoded_segment seg) = seg"
  using assms by (simp add: decoded_segment_def decode_plain escape_plain replace_2F_plain)

text \<open>A decoded pathname starts with a slash as the pathname does.\<close>

lemma join_leading: "ts \<noteq> [] \<Longrightarrow> join ([] # ts) = CHR ''/'' # join ts"
  by (cases ts) simp_all

lemma those_length: "those xs = Some ys \<Longrightarrow> length ys = length xs"
  by (induction xs arbitrary: ys) (auto split: option.splits)

lemma decodePath_leading:
  assumes "is_pathname p"
  shows "is_pathname (decodePath p)"
proof -
  from assms obtain cs where p: "p = CHR ''/'' # cs"
    by (cases p) (auto simp: is_pathname_def)
  have empty: "decodeURIComponent [] = Some []"
    by (simp add: decodeURIComponent_def)
  show ?thesis
  proof (cases "those (map decodeURIComponent (split_on CHR ''/'' cs))")
    case None
    then show ?thesis
      using assms by (simp add: decodePath_def p empty)
  next
    case (Some segments)
    then have "segments \<noteq> []"
      using split_on_nonempty [of "CHR ''/''" cs] by (auto dest: those_length)
    with Some show ?thesis
      by (simp add: decodePath_def p empty escape_slashes_def join_leading is_pathname_def)
  qed
qed

text \<open>The decoded form of a dashboard pathname.\<close>

lemma decodePath_dashboard:
  assumes "CHR ''/'' \<notin> set seg"
  shows "decodePath (''/dashboard/'' @ seg) = ''/dashboard/'' @ decoded_segment seg"
proof -
  have split: "split_on CHR ''/'' (''/dashboard/'' @ seg) = [[], ''dashboard'', seg]"
    using split_on_append [of "CHR ''/''" "[]" "''dashboard/'' @ seg"]
      split_on_append [of "CHR ''/''" "''dashboard''" seg] split_on_no_sep [OF assms]
    by simp
  have plain: "decodeURIComponent [] = Some []"
    "decodeURIComponent ''dashboard'' = Some ''dashboard''"
    by (simp_all add: decode_plain)
  have same: "escape_slashes ''dashboard'' = ''dashboard''" "escape_slashes [] = []"
    by (simp_all add: escape_slashes_def)
  show ?thesis
    unfolding decodePath_def split
    by (cases "decodeURIComponent seg") (simp_all add: plain same decoded_segment_def)
qed

subsection \<open>The order in which the routes are tried\<close>

lemma ranked_routes:
  "rankRouteBranches (flattenRoutes routes) =
     [Branch ''/dashboard/:id'' 17 (Route ''/dashboard/:id'' (Element ''DashboardPage'' [] [])),
      Branch ''/upload'' 13 (Route ''/upload'' (Element ''UploadPage'' [] [])),
      Branch ''/history'' 13 (Route ''/history'' (Element ''HistoryPage'' [] [])),
      Branch ''/about'' 13 (Route ''/about'' (Element ''AboutPage'' [] [])),
      Branch ''/'' 4 (Route ''/'' (Element ''HomePage'' [] [])),
      Branch ''/*'' 1 (Route ''*'' (Element ''NotFoundPage'' [] []))]"
  by code_simp

lemma declared_routes_eq:
  "declared_routes =
     [Route ''/'' (Element ''HomePage'' [] []),
      Route ''/upload'' (Element ''UploadPage'' [] []),
      Route ''/dashboard/:id'' (Element ''DashboardPage'' [] []),
      Route ''/history'' (Element ''HistoryPage'' [] []),
      Route ''/about'' (Element ''AboutPage'' [] [])]"
  by code_simp

lemma compile_star: "compilePath ''*'' = ([Static []], AnyRest)"
  by code_simp

text \<open>The catch-all matches a pathname unless a line terminator follows its first slash.\<close>

lemma star_matches:
  assumes "is_pathname d"
  shows "matchPath ''*'' d =
    (if has_line_terminator (tl d) then None else Some [(''*'', replace_2F (tl d))])"
  using assms
  by (cases d) (simp_all add: is_pathname_def matchPath_def compile_star match_ending_def)

text \<open>
  The declared patterns exclude one another: each fixes the first character after the
  leading slash. So the order of the scores and the order of the table find the same
  route, and the lookup is a lookup in the table, top down.
\<close>

lemma flat_routes:
  "flattenRoutes routes =
     [Branch ''/'' 4 (Route ''/'' (Element ''HomePage'' [] [])),
      Branch ''/upload'' 13 (Route ''/upload'' (Element ''UploadPage'' [] [])),
      Branch ''/dashboard/:id'' 17 (Route ''/dashboard/:id'' (Element ''DashboardPage'' [] [])),
      Branch ''/history'' 13 (Route ''/history'' (Element ''HistoryPage'' [] [])),
      Branch ''/about'' 13 (Route ''/about'' (Element ''AboutPage'' [] [])),
      Branch ''/*'' 1 (Route ''*'' (Element ''NotFoundPage'' [] []))]"
  by code_simp

lemma compiled:
  "compilePath ''/'' = ([Static []], End)"
  "compilePath ''/upload'' = ([Static ''upload''], End)"
  "compilePath ''/dashboard/:id'' = ([Static ''dashboard'', Param ''id''], End)"
  "compilePath ''/history'' = ([Static ''history''], End)"
  "compilePath ''/about'' = ([Static ''about''], End)"
  by code_simp+

lemma match_static:
  assumes "match_segments (Static (x # xs) # segs) p = Some r"
  shows "first_letter p = Some (lower_case x)"
proof (cases p)
  case Nil
  with assms show ?thesis by simp
next
  case (Cons c cs)
  with assms
  have "map lower_case (take (Suc (length xs)) cs) = lower_case x # map lower_case xs"
    by (simp split: if_splits)
  then show ?thesis
    using Cons by (cases cs) (simp_all add: first_letter_def)
qed

lemma matchPath_static:
  assumes "compilePath pat = (Static (x # xs) # segs, e)" and "matchPath pat p \<noteq> None"
  shows "first_letter p = Some (lower_case x)"
proof -
  from assms obtain r where "match_segments (Static (x # xs) # segs) p = Some r"
    by (auto simp: matchPath_def split: option.splits)
  then show ?thesis by (rule match_static)
qed

lemma initial_letters:
  "lower_case CHR ''u'' = CHR ''u''" "lower_case CHR ''d'' = CHR ''d''"
  "lower_case CHR ''h'' = CHR ''h''" "lower_case CHR ''a'' = CHR ''a''"
  "lower_case CHR ''/'' = CHR ''/''"
  by code_simp+

lemma matchPath_root:
  assumes "matchPath ''/'' p \<noteq> None"
  shows "first_letter p = None \<or> first_letter p = Some CHR ''/''"
proof (cases p)
  case Nil
  then show ?thesis by (simp add: first_letter_def)
next
  case (Cons c cs)
  with assms have "list_all (\<lambda>c. c = CHR ''/'') cs"
    by (simp add: matchPath_def compiled match_ending_def split: if_splits)
  then show ?thesis
    using Cons by (cases cs) (simp_all add: first_letter_def initial_letters)
qed

lemma first_letters:
  "matchPath ''/upload'' p \<noteq> None \<Longrightarrow> first_letter p = Some CHR ''u''"
  "matchPath ''/dashboard/:id'' p \<noteq> None \<Longrightarrow> first_letter p = Some CHR ''d''"
  "matchPath ''/history'' p \<noteq> None \<Longrightarrow> first_letter p = Some CHR ''h''"
  "matchPath ''/about'' p \<noteq> None \<Longrightarrow> first_letter p = Some CHR ''a''"
  using matchPath_static [OF compiled(2), of p] matchPath_static [OF compiled(3), of p]
    matchPath_static [OF compiled(4), of p] matchPath_static [OF compiled(5), of p]
  by (simp_all add: initial_letters)

lemma ranking_agrees_with_table:
  "first_match (rankRouteBranches (flattenRoutes routes)) p = first_match (flattenRoutes routes) p"
proof -
  have not_root: "first_letter p = Some c \<Longrightarrow> c \<noteq> CHR ''/'' \<Longrightarrow> matchPath ''/'' p = None"
    for c
    using matchPath_root [of p] by (cases "matchPath ''/'' p") auto
  have not_upload: "first_letter p \<noteq> Some CHR ''u'' \<Longrightarrow> matchPath ''/upload'' p = None"
    and not_dashboard:
      "first_letter p \<noteq> Some CHR ''d'' \<Longrightarrow> matchPath ''/dashboard/:id'' p = None"
    and not_history: "first_letter p \<noteq> Some CHR ''h'' \<Longrightarrow> matchPath ''/history'' p = None"
    and not_about: "first_letter p \<noteq> Some CHR ''a'' \<Longrightarrow> matchPath ''/about'' p = None"
    using first_letters [of p] by fastforce+
  consider (upload) "first_letter p = Some CHR ''u''"
    | (dashboard) "first_letter p = Some CHR ''d''"
    | (history) "first_letter p = Some CHR ''h''"
    | (about) "first_letter p = Some CHR ''a''"
    | (other) "first_letter p \<noteq> Some CHR ''u''" "first_letter p \<noteq> Some CHR ''d''"
        "first_letter p \<noteq> Some CHR ''h''" "first_letter p \<noteq> Some CHR ''a''"
    by blast
  then show ?thesis
  proof cases
    case upload
    then show ?thesis
      unfolding ranked_routes
      by (simp add: flat_routes not_root not_dashboard not_history not_about
          split: option.split)
  next
    case dashboard
    then show ?thesis
      unfolding ranked_routes
      by (simp add: flat_routes not_root not_upload not_history not_about
          split: option.split)
  next
    case history
    then show ?thesis
      unfolding ranked_routes
      by (simp add: flat_routes not_root not_upload not_dashboard not_about
          split: option.split)
  next
    case about
    then show ?thesis
      unfolding ranked_routes
      by (simp add: flat_routes not_root not_upload not_dashboard not_history
          split: option.split)
  next
    case other
    then show ?thesis
      unfolding ranked_routes
      by (simp add: flat_routes not_upload not_dashboard not_history not_about
          split: option.split)
  qed
qed

lemma first_match_in: "first_match bs p = Some (r, ps) \<Longrightarrow> r \<in> branch_route ` set bs"
  by (induction bs) (auto split: option.splits)

lemma matchRoutes_in: "matchRoutes rs p = Some (r, ps) \<Longrightarrow> r \<in> set rs"
proof -
  assume "matchRoutes rs p = Some (r, ps)"
  then have "r \<in> branch_route ` set (rankRouteBranches (flattenRoutes rs))"
    by (auto simp: matchRoutes_def Let_def dest: first_match_in)
  then show ?thesis
    by (auto simp: rankRouteBranches_def flattenRoutes_def Let_def)
qed

lemma routes_are_pages:
  "\<forall>r \<in> set routes. \<exists>c \<in> set page_components. route_element r = Element c [] []"
  by (simp add: routes_def page_components_def)

text \<open>What \<open>Routes\<close> can render: nothing, or one page inside its route context.\<close>

lemma Routes_cases:
  obtains (nothing) "Routes routes p = Element ''Routes'' [] []"
  | (page) ps c where "c \<in> set page_components"
      "Routes routes p =
         Element ''Routes'' []
           [Element ''RouteContext.Provider'' [(''params'', Obj ps)] [Element c [] []]]"
proof (cases "matchRoutes routes p")
  case None
  then have "Routes routes p = Element ''Routes'' [] []"
    by (simp add: Routes_def)
  then show ?thesis by (rule nothing)
next
  case (Some m)
  obtain r ps where m: "m = (r, ps)" by (cases m)
  with Some have "r \<in> set routes" by (auto dest: matchRoutes_in)
  then obtain c where c: "c \<in> set page_components" "route_element r = Element c [] []"
    using routes_are_pages by blast
  with Some m have "Routes routes p =
      Element ''Routes'' []
        [Element ''RouteContext.Provider'' [(''params'', Obj (map (\<lambda>(k, v). (k, Str v)) ps))]
           [Element c [] []]]"
    by (simp add: Routes_def)
  with c(1) show ?thesis by (rule page)
qed

lemma rendered_pages_App: "rendered_pages (App now p) = rendered_pages (Routes routes p)"
  by (simp add: App_def rendered_pages_def Footer_def page_components_def)

subsection \<open>Which pathnames the declared patterns match\<close>

text \<open>
  For each declared pattern, the decoded pathnames it matches: \<open>/\<close> matches the runs of
  slashes; a static pattern matches its own text in any letter case, followed by any
  number of slashes; \<open>/dashboard/:id\<close> matches \<open>/dashboard\<close> in any letter case, a slash, a
  non-empty segment and any number of slashes, and binds the segment.
\<close>

lemma all_slashes: "list_all (\<lambda>c. c = CHR ''/'') xs \<longleftrightarrow> xs = replicate (length xs) CHR ''/''"
  by (induction xs) auto

lemma root_matches_iff:
  "matchPath ''/'' d = (if d \<noteq> [] \<and> list_all (\<lambda>c. c = CHR ''/'') d then Some [] else None)"
  by (cases d) (auto simp: matchPath_def compiled match_ending_def)

lemma static_matches_iff:
  assumes "compilePath pat = ([Static s], End)"
  shows "matchPath pat d =
    (if \<exists>x k. d = CHR ''/'' # x @ replicate k CHR ''/'' \<and> map lower_case x = map lower_case s
     then Some [] else None)"
proof (cases d)
  case Nil
  then show ?thesis by (simp add: matchPath_def assms)
next
  case (Cons c cs)
  let ?n = "length s"
  show ?thesis
  proof (cases "c = CHR ''/'' \<and> map lower_case (take ?n cs) = map lower_case s
      \<and> list_all (\<lambda>c. c = CHR ''/'') (drop ?n cs)")
    case True
    then have "drop ?n cs = replicate (length (drop ?n cs)) CHR ''/''"
      using all_slashes by blast
    then have "cs = take ?n cs @ replicate (length (drop ?n cs)) CHR ''/''"
      by (metis append_take_drop_id)
    with True have "\<exists>x k. d = CHR ''/'' # x @ replicate k CHR ''/''
        \<and> map lower_case x = map lower_case s"
      using Cons by blast
    moreover have "matchPath pat d = Some []"
      using True Cons by (simp add: matchPath_def assms match_ending_def)
    ultimately show ?thesis by simp
  next
    case False
    have "\<not> (\<exists>x k. d = CHR ''/'' # x @ replicate k CHR ''/''
        \<and> map lower_case x = map lower_case s)"
    proof
      assume "\<exists>x k. d = CHR ''/'' # x @ replicate k CHR ''/''
        \<and> map lower_case x = map lower_case s"
      then obtain x k where d: "d = CHR ''/'' # x @ replicate k CHR ''/''"
        and x: "map lower_case x = map lower_case s"
        by blast
      from x have "length x = ?n"
        by (metis length_map)
      with d Cons have "c = CHR ''/''" "take ?n cs = x" "drop ?n cs = replicate k CHR ''/''"
        by simp_all
      with x False show False
        by (simp add: list_all_iff)
    qed
    moreover have "matchPath pat d = None"
      using False Cons by (auto simp: matchPath_def assms match_ending_def)
    ultimately show ?thesis by simp
  qed
qed

text \<open>The three static patterns, each with the pathnames it matches.\<close>

lemma static_routes_match:
  "matchPath ''/upload'' d =
    (if \<exists>x k. d = CHR ''/'' # x @ replicate k CHR ''/'' \<and> map lower_case x = map lower_case ''upload''
     then Some [] else None)"
  "matchPath ''/history'' d =
    (if \<exists>x k. d = CHR ''/'' # x @ replicate k CHR ''/'' \<and> map lower_case x = map lower_case ''history''
     then Some [] else None)"
  "matchPath ''/about'' d =
    (if \<exists>x k. d = CHR ''/'' # x @ replicate k CHR ''/'' \<and> map lower_case x = map lower_case ''about''
     then Some [] else None)"
  by (rule static_matches_iff, rule compiled)+

lemma lower_dashboard: "map lower_case ''dashboard'' = ''dashboard''"
  by code_simp

lemma takeWhile_segment:
  "CHR ''/'' \<notin> set w \<Longrightarrow>
     takeWhile (\<lambda>x. x \<noteq> CHR ''/'') (w @ replicate k CHR ''/'') = w"
proof (induction w)
  case Nil
  show ?case by (cases k) simp_all
next
  case (Cons a w)
  then show ?case by auto
qed

lemma dropWhile_segment:
  "CHR ''/'' \<notin> set w \<Longrightarrow>
     dropWhile (\<lambda>x. x \<noteq> CHR ''/'') (w @ replicate k CHR ''/'') = replicate k CHR ''/''"
proof (induction w)
  case Nil
  show ?case by (cases k) simp_all
next
  case (Cons a w)
  then show ?case by auto
qed

lemma match_static_intro:
  assumes "map lower_case x = map lower_case s"
  shows "match_segments (Static s # segs) (CHR ''/'' # x @ rest) = match_segments segs rest"
proof -
  from assms have "length x = length s"
    by (metis length_map)
  with assms show ?thesis by simp
qed

lemma match_static_elim:
  assumes "match_segments (Static s # segs) d = Some r"
  obtains x rest where "d = CHR ''/'' # x @ rest" and "map lower_case x = map lower_case s"
    and "match_segments segs rest = Some r"
proof (cases d)
  case Nil
  with assms show ?thesis by simp
next
  case (Cons c cs)
  with assms have "c = CHR ''/''"
    and "map lower_case (take (length s) cs) = map lower_case s"
    and "match_segments segs (drop (length s) cs) = Some r"
    by (simp_all split: if_splits)
  moreover have "d = c # take (length s) cs @ drop (length s) cs"
    using Cons by simp
  ultimately show ?thesis
    using that by blast
qed

lemma match_param_intro:
  assumes "w \<noteq> []" and "CHR ''/'' \<notin> set w"
  shows "match_segments [Param n] (CHR ''/'' # w @ replicate k CHR ''/'')
    = Some ([(n, w)], replicate k CHR ''/'')"
  using assms by (simp add: takeWhile_segment dropWhile_segment)

lemma match_param_elim:
  assumes "match_segments [Param n] d = Some (ps, rest)"
  obtains w where "d = CHR ''/'' # w @ rest" and "w \<noteq> []" and "CHR ''/'' \<notin> set w"
    and "ps = [(n, w)]"
proof (cases d)
  case Nil
  with assms show ?thesis by simp
next
  case (Cons c cs)
  let ?w = "takeWhile (\<lambda>x. x \<noteq> CHR ''/'') cs"
  from assms Cons have "c = CHR ''/''" and "?w \<noteq> []"
    and "rest = dropWhile (\<lambda>x. x \<noteq> CHR ''/'') cs" and "ps = [(n, ?w)]"
    by (auto simp: Let_def split: if_splits)
  moreover have "CHR ''/'' \<notin> set ?w"
    by (auto dest: set_takeWhileD)
  moreover have "d = c # ?w @ dropWhile (\<lambda>x. x \<noteq> CHR ''/'') cs"
    using Cons by simp
  ultimately show ?thesis
    using that by blast
qed

lemma dashboard_match:
  assumes "map lower_case x = ''dashboard''" and "w \<noteq> []" and "CHR ''/'' \<notin> set w"
  shows "matchPath ''/dashboard/:id'' (CHR ''/'' # x @ CHR ''/'' # w @ replicate k CHR ''/'')
    = Some [(''id'', replace_2F w)]"
proof -
  have "match_segments [Static ''dashboard'', Param ''id'']
      (CHR ''/'' # x @ CHR ''/'' # w @ replicate k CHR ''/'')
    = match_segments [Param ''id''] (CHR ''/'' # w @ replicate k CHR ''/'')"
    using assms(1) by (intro match_static_intro) (simp only: lower_dashboard)
  also have "\<dots> = Some ([(''id'', w)], replicate k CHR ''/'')"
    using assms(2,3) by (rule match_param_intro)
  finally show ?thesis
    by (simp add: matchPath_def compiled match_ending_def list_all_iff)
qed

lemma matchPath_dashboard_unfold:
  "matchPath ''/dashboard/:id'' d =
     (case match_segments [Static ''dashboard'', Param ''id''] d of
        None \<Rightarrow> None
      | Some (qs, rest) \<Rightarrow>
          if list_all (\<lambda>c. c = CHR ''/'') rest
          then Some (map (\<lambda>(name, v). (name, replace_2F v)) qs) else None)"
  by (simp add: matchPath_def compiled match_ending_def del: match_segments.simps
      split: option.split)

lemma dashboard_matches_iff:
  "matchPath ''/dashboard/:id'' d = Some ps \<longleftrightarrow>
     (\<exists>x w k. d = CHR ''/'' # x @ CHR ''/'' # w @ replicate k CHR ''/''
        \<and> map lower_case x = ''dashboard'' \<and> w \<noteq> [] \<and> CHR ''/'' \<notin> set w
        \<and> ps = [(''id'', replace_2F w)])"
  (is "?lhs \<longleftrightarrow> ?rhs")
proof
  assume m: ?lhs
  then obtain qs rest where segs:
    "match_segments [Static ''dashboard'', Param ''id''] d = Some (qs, rest)"
    and ending: "list_all (\<lambda>c. c = CHR ''/'') rest"
    and ps: "ps = map (\<lambda>(name, v). (name, replace_2F v)) qs"
    unfolding matchPath_dashboard_unfold
    by (cases "match_segments [Static ''dashboard'', Param ''id''] d")
      (auto simp del: match_segments.simps split: if_splits)
  from segs obtain x tail where d: "d = CHR ''/'' # x @ tail"
    and x: "map lower_case x = map lower_case ''dashboard''"
    and tail: "match_segments [Param ''id''] tail = Some (qs, rest)"
    by (rule match_static_elim)
  from tail obtain w where w: "tail = CHR ''/'' # w @ rest" "w \<noteq> []" "CHR ''/'' \<notin> set w"
    and qs: "qs = [(''id'', w)]"
    by (rule match_param_elim)
  from ending have rest: "rest = replicate (length rest) CHR ''/''"
    using all_slashes by blast
  have 1: "d = CHR ''/'' # x @ CHR ''/'' # w @ replicate (length rest) CHR ''/''"
    using d w(1) rest by simp
  have 2: "map lower_case x = ''dashboard''"
    using x by (simp only: lower_dashboard)
  have 3: "ps = [(''id'', replace_2F w)]"
    using ps qs by simp
  show ?rhs
    by (intro exI conjI) (rule 1, rule 2, rule w(2), rule w(3), rule 3)
next
  assume ?rhs
  then show ?lhs
  proof (elim exE conjE)
    fix x w k
    assume d: "d = CHR ''/'' # x @ CHR ''/'' # w @ replicate k CHR ''/''"
      and x: "map lower_case x = ''dashboard''"
      and w: "w \<noteq> []" "CHR ''/'' \<notin> set w"
      and ps: "ps = [(''id'', replace_2F w)]"
    show ?lhs
      unfolding d ps by (rule dashboard_match [OF x w])
  qed
qed

lemma route_params_App: "route_params (App now p) = route_params (Routes routes p)"
  by (simp add: App_def Footer_def)

subsection \<open>The declared paths\<close>

lemma dashboard_matchRoutes:
  assumes "seg \<noteq> []" and "CHR ''/'' \<notin> set seg"
  shows "matchRoutes routes (''/dashboard/'' @ seg) =
    Some (Route ''/dashboard/:id'' (Element ''DashboardPage'' [] []),
          [(''id'', replace_2F (decoded_segment seg))])"
proof -
  let ?w = "decoded_segment seg"
  have shape: "''/dashboard/'' @ ?w = CHR ''/'' # ''dashboard'' @ CHR ''/'' # ?w @ replicate 0 CHR ''/''"
    by simp
  have "matchPath ''/dashboard/:id'' (''/dashboard/'' @ ?w) = Some [(''id'', replace_2F ?w)]"
    unfolding shape
    by (rule dashboard_match [OF lower_dashboard decoded_segment_shape [OF assms]])
  then show ?thesis
    by (simp add: matchRoutes_def decodePath_dashboard [OF assms(2)] ranked_routes
        del: append.simps)
qed

lemma dashboard_Routes:
  assumes "seg \<noteq> []" and "CHR ''/'' \<notin> set seg"
  shows "Routes routes (''/dashboard/'' @ seg) =
    Element ''Routes'' []
      [Element ''RouteContext.Provider''
         [(''params'', Obj [(''id'', Str (replace_2F (decoded_segment seg)))])]
         [Element ''DashboardPage'' [] []]]"
  by (simp add: Routes_def dashboard_matchRoutes [OF assms] del: append.simps)

text \<open>
  Claim C1. At each of the four declared paths without a parameter, and at every path
  \<open>/dashboard/id\<close> whose \<open>id\<close> is a non-empty segment, the tree that \<open>App\<close> renders holds
  exactly one page component, the one the route table gives for that path. The dashboard
  page finds the segment, decoded, as its \<open>id\<close>: the segment itself when it holds no
  escape. (The path \<open>/dashboard/:id\<close> taken literally is the case \<open>id = :id\<close>.)
\<close>

theorem declared_paths_render_their_page:
  assumes "seg \<noteq> []" and "CHR ''/'' \<notin> set seg"
  shows "rendered_pages (App now ''/'') = [''HomePage'']
   \<and> rendered_pages (App now ''/upload'') = [''UploadPage'']
   \<and> rendered_pages (App now ''/dashboard/:id'') = [''DashboardPage'']
   \<and> rendered_pages (App now ''/history'') = [''HistoryPage'']
   \<and> rendered_pages (App now ''/about'') = [''AboutPage'']
   \<and> rendered_pages (App now (''/dashboard/'' @ seg)) = [''DashboardPage'']
   \<and> route_params (App now (''/dashboard/'' @ seg))
       = [[(''id'', Str (replace_2F (decoded_segment seg)))]]
   \<and> (CHR ''%'' \<notin> set seg
        \<longrightarrow> route_params (App now (''/dashboard/'' @ seg)) = [[(''id'', Str seg)]])"
proof -
  have static: "rendered_pages (Routes routes ''/'') = [''HomePage'']"
    "rendered_pages (Routes routes ''/upload'') = [''UploadPage'']"
    "rendered_pages (Routes routes ''/dashboard/:id'') = [''DashboardPage'']"
    "rendered_pages (Routes routes ''/history'') = [''HistoryPage'']"
    "rendered_pages (Routes routes ''/about'') = [''AboutPage'']"
    by code_simp+
  have page: "rendered_pages (Routes routes (''/dashboard/'' @ seg)) = [''DashboardPage'']"
    unfolding dashboard_Routes [OF assms]
    by (simp add: rendered_pages_def page_components_def)
  have id: "route_params (Routes routes (''/dashboard/'' @ seg))
      = [[(''id'', Str (replace_2F (decoded_segment seg)))]]"
    unfolding dashboard_Routes [OF assms] by simp
  have plain: "CHR ''%'' \<notin> set seg \<Longrightarrow> replace_2F (decoded_segment seg) = seg"
    using assms(2) by (rule decoded_segment_plain)
  show ?thesis
    unfolding rendered_pages_App route_params_App
    using static page id plain by simp
qed

lemma dashboard_1234:
  "''1234'' \<noteq> []" "CHR ''/'' \<notin> set ''1234''" "CHR ''%'' \<notin> set ''1234''"
  "''a%20b%2Fc'' \<noteq> []" "CHR ''/'' \<notin> set ''a%20b%2Fc''"
  "replace_2F (decoded_segment ''a%20b%2Fc'') = ''a b/c''"
  by code_simp+

theorem declared_paths_render_their_page_witness:
  "''1234'' \<noteq> [] \<and> CHR ''/'' \<notin> set ''1234'' \<and> CHR ''%'' \<notin> set ''1234''
   \<and> rendered_pages (App (Date 2026 10 2) ''/upload'') = [''UploadPage'']
   \<and> rendered_pages (App (Date 2026 10 2) ''/dashboard/1234'') = [''DashboardPage'']
   \<and> route_params (App (Date 2026 10 2) ''/dashboard/1234'') = [[(''id'', Str ''1234'')]]
   \<and> rendered_pages (App (Date 2026 10 2) ''/dashboard/a%20b%2Fc'') = [''DashboardPage'']
   \<and> route_params (App (Date 2026 10 2) ''/dashboard/a%20b%2Fc'') = [[(''id'', Str ''a b/c'')]]"
  using declared_paths_render_their_page [OF dashboard_1234(1,2), of "Date 2026 10 2"]
    declared_paths_render_their_page [OF dashboard_1234(4,5), of "Date 2026 10 2"]
  by (auto simp: dashboard_1234)

text \<open>
  Claim C5. At \<open>/dashboard/42\<close> the content region is the \<open>DashboardPage\<close> inside a route
  context whose params bind \<open>id\<close> to the string \<open>42\<close>, and nothing else binds a parameter.
\<close>

theorem dashboard_42_binds_id:
  "Routes routes ''/dashboard/42'' =
     Element ''Routes'' []
       [Element ''RouteContext.Provider'' [(''params'', Obj [(''id'', Str ''42'')])]
          [Element ''DashboardPage'' [] []]]
   \<and> rendered_pages (App now ''/dashboard/42'') = [''DashboardPage'']
   \<and> route_params (App now ''/dashboard/42'') = [[(''id'', Str ''42'')]]"
  by code_simp

subsection \<open>The fallback\<close>

lemma unmatched_matchRoutes:
  assumes "is_pathname p"
    and "\<forall>r \<in> set declared_routes. matchPath (route_path r) (decodePath p) = None"
  shows "matchRoutes routes p =
    (if has_line_terminator (tl (decodePath p)) then None
     else Some (Route ''*'' (Element ''NotFoundPage'' [] []),
                [(''*'', replace_2F (tl (decodePath p)))]))"
proof -
  from assms(1) have "p \<noteq> []" by (auto simp: is_pathname_def)
  with assms(2) star_matches [OF decodePath_leading [OF assms(1)]] show ?thesis
    by (simp add: matchRoutes_def ranked_routes declared_routes_eq)
qed





text \<open>
  With a line terminator after the first slash of the decoded pathname, and no declared
  pattern matching, the content region is empty.
\<close>

lemma unmatched_line_terminator_renders_nothing:
  assumes "is_pathname p"
    and "\<forall>r \<in> set declared_routes. matchPath (route_path r) (decodePath p) = None"
    and "has_line_terminator (tl (decodePath p))"
  shows "Routes routes p = Element ''Routes'' [] []"
  using unmatched_matchRoutes [OF assms(1,2)] assms(3) by (simp add: Routes_def)

text \<open>Every pathname without a line terminator in its decoded form renders a page.\<close>

lemma some_route_matches:
  assumes "is_pathname p" and "\<not> has_line_terminator (tl (decodePath p))"
  shows "matchRoutes routes p \<noteq> None"
proof -
  from assms(1) have "p \<noteq> []" by (auto simp: is_pathname_def)
  with assms(2) star_matches [OF decodePath_leading [OF assms(1)]] show ?thesis
    by (simp add: matchRoutes_def Let_def ranked_routes split: option.split)
qed

section \<open>Properties of the footer\<close>

declare string_of_nat.simps [simp del]

lemma digit_value_digit: "d < 10 \<Longrightarrow> digit_value (''0123456789'' ! d) = d"
proof -
  assume "d < 10"
  then have "d \<in> {0, 1, 2, 3, 4, 5, 6, 7, 8, 9}" by auto
  then show ?thesis by (auto simp: digit_value_def)
qed

lemma is_digit_digit: "d < 10 \<Longrightarrow> is_digit (''0123456789'' ! d)"
proof -
  assume "d < 10"
  then have "d \<in> {0, 1, 2, 3, 4, 5, 6, 7, 8, 9}" by auto
  then show ?thesis by (auto simp: is_digit_def)
qed

lemma nat_of_string_snoc: "nat_of_string (ds @ [d]) = 10 * nat_of_string ds + digit_value d"
  by (simp add: nat_of_string_def)

lemma nat_of_string_of_nat: "nat_of_string (string_of_nat n) = n"
proof (induction n rule: string_of_nat.induct)
  case (1 n)
  show ?case
  proof (cases "n < 10")
    case True
    then show ?thesis
      by (subst string_of_nat.simps) (simp add: nat_of_string_def digit_value_digit)
  next
    case False
    with 1 show ?thesis
      by (subst string_of_nat.simps) (simp add: nat_of_string_snoc digit_value_digit)
  qed
qed

lemma digits_string_of_nat: "list_all is_digit (string_of_nat n)"
proof (induction n rule: string_of_nat.induct)
  case (1 n)
  show ?case
  proof (cases "n < 10")
    case True
    then show ?thesis
      by (subst string_of_nat.simps) (simp add: is_digit_digit)
  next
    case False
    with 1 show ?thesis
      by (subst string_of_nat.simps) (simp add: is_digit_digit)
  qed
qed

lemma string_of_nat_nonempty: "string_of_nat n \<noteq> []"
  by (subst string_of_nat.simps) simp

lemma hd_string_of_nat: "hd (string_of_nat n) \<noteq> CHR ''-''"
proof -
  have "is_digit (hd (string_of_nat n))"
    using digits_string_of_nat [of n] string_of_nat_nonempty [of n]
    by (cases "string_of_nat n") simp_all
  then show ?thesis by (auto simp: is_digit_def)
qed

text \<open>Reading a numeral gives back the number it was written from.\<close>

lemma int_of_string_of_int: "int_of_string (string_of_int i) = i"
proof (cases "i < 0")
  case True
  then show ?thesis
    by (simp add: int_of_string_def string_of_int_def nat_of_string_of_nat)
next
  case False
  obtain c cs where s: "string_of_nat (nat i) = c # cs"
    using string_of_nat_nonempty [of "nat i"] by (cases "string_of_nat (nat i)") auto
  with hd_string_of_nat [of "nat i"] have "c \<noteq> CHR ''-''" by simp
  moreover have "nat_of_string (c # cs) = nat i"
    using nat_of_string_of_nat [of "nat i"] s by simp
  ultimately show ?thesis
    using False s by (simp add: int_of_string_def string_of_int_def)
qed

lemma takeWhile_digits:
  "list_all is_digit ds \<Longrightarrow> takeWhile is_digit (ds @ attribution) = ds"
  by (induction ds) (simp_all add: attribution_def is_digit_def)

lemma text_content_Footer:
  "text_content (Footer now) =
     copyright_sign @ '' '' @ string_of_int (getFullYear now) @ attribution"
  by (simp add: Footer_def)

lemma displayed_year_roundtrip:
  "displayed_year (copyright_sign @ '' '' @ string_of_int y @ attribution) = Some y"
proof (cases "y < 0")
  case True
  then have s: "string_of_int y = CHR ''-'' # string_of_nat (nat (- y))"
    by (simp add: string_of_int_def)
  have "int_of_string (CHR ''-'' # string_of_nat (nat (- y))) = y"
    using int_of_string_of_int [of y] s by simp
  then show ?thesis
    unfolding s
    by (simp add: displayed_year_def copyright_sign_def takeWhile_digits digits_string_of_nat
        string_of_nat_nonempty)
next
  case False
  then have s: "string_of_int y = string_of_nat (nat y)"
    by (simp add: string_of_int_def)
  obtain c cs where t: "string_of_nat (nat y) = c # cs"
    using string_of_nat_nonempty [of "nat y"] by (cases "string_of_nat (nat y)") auto
  with hd_string_of_nat [of "nat y"] have c: "c \<noteq> CHR ''-''" by simp
  have d: "takeWhile is_digit ((c # cs) @ attribution) = c # cs"
    using takeWhile_digits [OF digits_string_of_nat, of "nat y"] t by simp
  have "int_of_string (c # cs) = y"
    using int_of_string_of_int [of y] s t by simp
  then show ?thesis
    unfolding s t using c d
    by (simp add: displayed_year_def copyright_sign_def Let_def)
qed

text \<open>
  Claim C3. Whatever the clock reads when \<open>Footer\<close> renders, the text of the footer is the
  copyright sign, a space, the decimal numeral of the year of that reading, and the fixed
  attribution; the year a reader finds in the text is the year of the reading.
\<close>

theorem footer_shows_current_year:
  "text_content (Footer now) =
     copyright_sign @ '' '' @ string_of_int (getFullYear now) @ attribution
   \<and> displayed_year (text_content (Footer now)) = Some (getFullYear now)"
  by (simp only: text_content_Footer displayed_year_roundtrip)

theorem footer_shows_current_year_witness:
  "text_content (Footer (Date 2026 10 2)) =
     copyright_sign @ '' 2026 AI Fitness Health Analyzer | Powered by Google Gemini AI''
   \<and> displayed_year (text_content (Footer (Date 2026 10 2))) = Some 2026"
proof -
  have "string_of_int 2026 = ''2026''" by code_simp
  with footer_shows_current_year [of "Date 2026 10 2"] show ?thesis
    by (auto simp: attribution_def)
qed

section \<open>Properties of the theme\<close>









text \<open>
  A role that neither the record nor the framework knows has no value: the statement of
  the claim is not met by a misspelt name.
\<close>

lemma misspelt_role_has_no_value:
  "get_path theme [''palette'', ''text'', ''secundary''] = None"
  by code_simp

section \<open>Properties of navigation\<close>

lemma shell_tags:
  "tags (outside_content (App now p)) =
     [''BrowserRouter'', ''ThemeProvider'', ''CssBaseline'', ''Box'', ''Header'', ''Box'',
      ''Routes'', ''Footer'', ''Box'', ''Container'', ''Typography'']"
  by (simp add: App_def Routes_def Footer_def)

lemma outside_content_App: "outside_content (App now p) = outside_content (App now q)"
  by (simp add: App_def Routes_def)

lemma mounted_Routes:
  "set (mounted_children [Routes routes p] [Routes routes q])
     \<subseteq> insert ''RouteContext.Provider'' (set page_components)"
  by (cases p rule: Routes_cases; cases q rule: Routes_cases) auto

lemma mounted_App:
  "mounted (App now p) (App now q) = mounted_children [Routes routes p] [Routes routes q]"
  by (simp add: mounted_def App_def Footer_def)

lemma mounted_not_shell:
  "set (mounted (App now p) (App now q)) \<inter> set (tags (outside_content (App now q))) = {}"
  using mounted_Routes [of p q]
  by (auto simp: mounted_App shell_tags page_components_def)

lemma tags_Routes:
  "filter (\<lambda>c. c \<in> set (tags (outside_content (App now p)))) (tags (Routes routes q))
     = [''Routes'']"
  by (cases q rule: Routes_cases) (auto simp: shell_tags page_components_def)

lemma first_render:
  "filter (\<lambda>c. c \<in> set (tags (outside_content (App now p)))) (tags (App now p))
     = tags (outside_content (App now p))"
proof -
  have "tags (App now p) =
    [''BrowserRouter'', ''ThemeProvider'', ''CssBaseline'', ''Box'', ''Header'', ''Box'']
    @ tags (Routes routes p) @ [''Footer'', ''Box'', ''Container'', ''Typography'']"
    by (simp add: App_def Footer_def)
  then show ?thesis
    using tags_Routes [of now p p] by (simp add: shell_tags)
qed

lemma mount_log_not_shell:
  "filter (\<lambda>c. c \<in> set (tags (outside_content (App now p0)))) (mount_log now p navigations)
     = []"
proof (induction navigations arbitrary: p)
  case Nil
  show ?case by simp
next
  case (Cons q navigations)
  have "filter (\<lambda>c. c \<in> set (tags (outside_content (App now p0))))
          (mounted (App now p) (App now q)) = []"
    using mounted_not_shell [of now p q] outside_content_App [of now p0 q]
    by (auto simp: filter_empty_conv)
  with Cons.IH [of q] show ?case by simp
qed

text \<open>
  Claim C9. Navigation from any location to any other leaves the tree outside the content
  region as it is: the shell, \<open>Header\<close>, \<open>Footer\<close> and the theme handed to \<open>ThemeProvider\<close>
  are the same. It mounts no component of the shell: what it mounts lies in the content
  region. Over a whole session, whatever the navigation events, every component of the
  shell is mounted once, by the first render.
\<close>

theorem navigation_changes_content_only:
  "outside_content (App now p) = outside_content (App now q)
   \<and> set (mounted (App now p) (App now q)) \<inter> set (tags (outside_content (App now q))) = {}
   \<and> filter (\<lambda>c. c \<in> set (tags (outside_content (App now p))))
        (session_mounts now p navigations)
       = tags (outside_content (App now p))"
  using outside_content_App [of now p q] mounted_not_shell [of now p q]
    first_render [of now p] mount_log_not_shell [of now p p navigations]
  by (simp add: session_mounts_def)

lemma session_example:
  "mounted (App (Date 2026 10 2) ''/'') (App (Date 2026 10 2) ''/upload'') = [''UploadPage'']"
  "session_mounts (Date 2026 10 2) ''/'' [''/upload'', ''/dashboard/1'', ''/dashboard/2''] =
     [''BrowserRouter'', ''ThemeProvider'', ''CssBaseline'', ''Box'', ''Header'', ''Box'',
      ''Routes'', ''RouteContext.Provider'', ''HomePage'', ''Footer'', ''Box'', ''Container'',
      ''Typography'', ''UploadPage'', ''DashboardPage'']"
  by code_simp+

theorem navigation_changes_content_only_witness:
  "outside_content (App (Date 2026 10 2) ''/'') = outside_content (App (Date 2026 10 2) ''/upload'')
   \<and> mounted (App (Date 2026 10 2) ''/'') (App (Date 2026 10 2) ''/upload'') = [''UploadPage'']
   \<and> filter (\<lambda>c. c \<in> set (tags (outside_content (App (Date 2026 10 2) ''/''))))
        (session_mounts (Date 2026 10 2) ''/'' [''/upload'', ''/dashboard/1'', ''/dashboard/2''])
       = [''BrowserRouter'', ''ThemeProvider'', ''CssBaseline'', ''Box'', ''Header'', ''Box'',
          ''Routes'', ''Footer'', ''Box'', ''Container'', ''Typography'']"
  using navigation_changes_content_only
    [of "Date 2026 10 2" "''/''" "''/upload''" "[''/upload'', ''/dashboard/1'', ''/dashboard/2'']"]
  by (simp add: session_example(1) shell_tags)

end
